theory Spec2Isabelle
  imports Complex_Main
begin

section \<open>JavaScript numbers\<close>

text \<open>
  The dashboard is TypeScript: every \<open>number\<close> is an IEEE double. The model keeps the
  special values the code can produce and reacts to (\<open>NaN\<close>, \<open>+Infinity\<close>,
  \<open>-Infinity\<close>) and takes every finite double as the real number it denotes. Rounding,
  overflow to infinity and the sign of zero are outside the model: a finite result is the
  exact real result, and zero is taken as \<open>+0\<close>. In particular \<open>Math_exp\<close> of a finite
  number is the real exponential, which is never 0, never infinite and strictly
  monotone, while \<open>Math.exp\<close> rounds: it gives 1 for an argument close to 0, 0 for a
  very negative one and \<open>Infinity\<close> for a large one. An ordering between results of
  \<open>Math.exp\<close> is therefore stated as \<open>\<le>\<close>, which rounding keeps, and not as \<open><\<close>.
\<close>

datatype number = Fin real | PInf | NInf | NaN

fun num_add :: "number \<Rightarrow> number \<Rightarrow> number" where
  "num_add (Fin a) (Fin b) = Fin (a + b)"
| "num_add NaN _ = NaN"
| "num_add _ NaN = NaN"
| "num_add PInf NInf = NaN"
| "num_add NInf PInf = NaN"
| "num_add PInf _ = PInf"
| "num_add _ PInf = PInf"
| "num_add NInf _ = NInf"
| "num_add _ NInf = NInf"

fun num_neg :: "number \<Rightarrow> number" where
  "num_neg (Fin a) = Fin (- a)"
| "num_neg PInf = NInf"
| "num_neg NInf = PInf"
| "num_neg NaN = NaN"

text \<open>An infinity with the sign of \<open>s\<close>; \<open>0 * Infinity\<close> is \<open>NaN\<close>.\<close>

definition signed_inf :: "real \<Rightarrow> number" where
  "signed_inf s = (if s > 0 then PInf else if s < 0 then NInf else NaN)"

fun num_mul :: "number \<Rightarrow> number \<Rightarrow> number" where
  "num_mul (Fin a) (Fin b) = Fin (a * b)"
| "num_mul NaN _ = NaN"
| "num_mul _ NaN = NaN"
| "num_mul PInf (Fin b) = signed_inf b"
| "num_mul NInf (Fin b) = signed_inf (- b)"
| "num_mul (Fin a) PInf = signed_inf a"
| "num_mul (Fin a) NInf = signed_inf (- a)"
| "num_mul PInf PInf = PInf"
| "num_mul NInf NInf = PInf"
| "num_mul PInf NInf = NInf"
| "num_mul NInf PInf = NInf"

fun num_div :: "number \<Rightarrow> number \<Rightarrow> number" where
  "num_div (Fin a) (Fin b) = (if b = 0 then signed_inf a else Fin (a / b))"
| "num_div NaN _ = NaN"
| "num_div _ NaN = NaN"
| "num_div (Fin a) PInf = Fin 0"
| "num_div (Fin a) NInf = Fin 0"
| "num_div PInf (Fin b) = (if b < 0 then NInf else PInf)"
| "num_div NInf (Fin b) = (if b < 0 then PInf else NInf)"
| "num_div PInf PInf = NaN"
| "num_div PInf NInf = NaN"
| "num_div NInf PInf = NaN"
| "num_div NInf NInf = NaN"

text \<open>Comparisons: every comparison with \<open>NaN\<close> is false.\<close>

fun num_less :: "number \<Rightarrow> number \<Rightarrow> bool" where
  "num_less (Fin a) (Fin b) = (a < b)"
| "num_less NaN _ = False"
| "num_less _ NaN = False"
| "num_less _ NInf = False"
| "num_less PInf _ = False"
| "num_less NInf _ = True"
| "num_less _ PInf = True"

fun num_less_eq :: "number \<Rightarrow> number \<Rightarrow> bool" where
  "num_less_eq (Fin a) (Fin b) = (a \<le> b)"
| "num_less_eq NaN _ = False"
| "num_less_eq _ NaN = False"
| "num_less_eq NInf _ = True"
| "num_less_eq _ PInf = True"
| "num_less_eq _ NInf = False"
| "num_less_eq PInf _ = False"

instantiation number :: "{plus, minus, uminus, times, inverse, ord}"
begin

definition plus_number :: "number \<Rightarrow> number \<Rightarrow> number" where
  "plus_number a b = num_add a b"

definition uminus_number :: "number \<Rightarrow> number" where
  "uminus_number a = num_neg a"

definition minus_number :: "number \<Rightarrow> number \<Rightarrow> number" where
  "minus_number a b = num_add a (num_neg b)"

definition times_number :: "number \<Rightarrow> number \<Rightarrow> number" where
  "times_number a b = num_mul a b"

definition divide_number :: "number \<Rightarrow> number \<Rightarrow> number" where
  "divide_number a b = num_div a b"

definition inverse_number :: "number \<Rightarrow> number" where
  "inverse_number a = num_div (Fin 1) a"

definition less_number :: "number \<Rightarrow> number \<Rightarrow> bool" where
  "less_number a b = num_less a b"

definition less_eq_number :: "number \<Rightarrow> number \<Rightarrow> bool" where
  "less_eq_number a b = num_less_eq a b"

instance ..

end

text \<open>\<open>Math.exp\<close>, \<open>Math.log\<close>, \<open>Math.sqrt\<close>.\<close>

fun Math_exp :: "number \<Rightarrow> number" where
  "Math_exp (Fin a) = Fin (exp a)"
| "Math_exp PInf = PInf"
| "Math_exp NInf = Fin 0"
| "Math_exp NaN = NaN"

fun Math_log :: "number \<Rightarrow> number" where
  "Math_log (Fin a) = (if a < 0 then NaN else if a = 0 then NInf else Fin (ln a))"
| "Math_log PInf = PInf"
| "Math_log NInf = NaN"
| "Math_log NaN = NaN"

fun Math_sqrt :: "number \<Rightarrow> number" where
  "Math_sqrt (Fin a) = (if a < 0 then NaN else Fin (sqrt a))"
| "Math_sqrt PInf = PInf"
| "Math_sqrt NInf = NaN"
| "Math_sqrt NaN = NaN"

text \<open>
  \<open>Math.pow\<close> and the operator \<open>**\<close> (ECMAScript \<open>Number::exponentiate\<close>), case by
  case in the order of the standard: an exponent of zero gives 1 for every base, also
  for \<open>NaN\<close>; a negative base has a result only for an integer exponent.
\<close>

definition is_integer :: "real \<Rightarrow> bool" where
  "is_integer y = (real_of_int \<lfloor>y\<rfloor> = y)"

definition is_odd_integer :: "real \<Rightarrow> bool" where
  "is_odd_integer y = (is_integer y \<and> odd \<lfloor>y\<rfloor>)"

fun Math_pow :: "number \<Rightarrow> number \<Rightarrow> number" where
  "Math_pow _ NaN = NaN"
| "Math_pow x (Fin y) =
     (if y = 0 then Fin 1
      else case x of
        NaN \<Rightarrow> NaN
      | PInf \<Rightarrow> (if y > 0 then PInf else Fin 0)
      | NInf \<Rightarrow> (if y > 0 then (if is_odd_integer y then NInf else PInf) else Fin 0)
      | Fin b \<Rightarrow>
          (if b = 0 then (if y > 0 then Fin 0 else PInf)
           else if b < 0 then (if is_integer y then Fin (b powi \<lfloor>y\<rfloor>) else NaN)
           else Fin (b powr y)))"
| "Math_pow x PInf =
     (case x of
        NaN \<Rightarrow> NaN
      | Fin b \<Rightarrow> (if \<bar>b\<bar> > 1 then PInf else if \<bar>b\<bar> = 1 then NaN else Fin 0)
      | _ \<Rightarrow> PInf)"
| "Math_pow x NInf =
     (case x of
        NaN \<Rightarrow> NaN
      | Fin b \<Rightarrow> (if \<bar>b\<bar> > 1 then Fin 0 else if \<bar>b\<bar> = 1 then NaN else PInf)
      | _ \<Rightarrow> Fin 0)"

text \<open>\<open>arr.reduce((a, b) => a + b, 0)\<close>: a left fold from 0.\<close>

definition sum_reduce :: "number list \<Rightarrow> number" where
  "sum_reduce xs = foldl (\<lambda>a b. a + b) (Fin 0) xs"

section \<open>Dates\<close>

text \<open>
  A \<open>Date\<close> is modelled by its UTC calendar fields (month 0 to 11, as
  \<open>getUTCMonth\<close> returns it) and the milliseconds since midnight; \<open>getTime\<close>
  recovers the time value with the day arithmetic of ECMAScript (\<open>DayFromYear\<close>,
  \<open>MakeDay\<close>). Invalid dates and the range limit of time values are outside the model.
\<close>

record Date =
  utcFullYear :: int
  utcMonth :: int
  utcDate :: int
  msOfDay :: int

definition getUTCFullYear :: "Date \<Rightarrow> int" where
  "getUTCFullYear d = utcFullYear d"

definition getUTCMonth :: "Date \<Rightarrow> int" where
  "getUTCMonth d = utcMonth d"

definition msPerDay :: int where
  "msPerDay = 1000 * 60 * 60 * 24"

definition DayFromYear :: "int \<Rightarrow> int" where
  "DayFromYear y =
     365 * (y - 1970) + (y - 1969) div 4 - (y - 1901) div 100 + (y - 1601) div 400"

definition InLeapYear :: "int \<Rightarrow> bool" where
  "InLeapYear y = (y mod 4 = 0 \<and> (y mod 100 \<noteq> 0 \<or> y mod 400 = 0))"

definition daysBeforeMonth :: "int \<Rightarrow> bool \<Rightarrow> int" where
  "daysBeforeMonth m leap =
     [0, 31, 59, 90, 120, 151, 181, 212, 243, 273, 304, 334] ! nat m
       + (if leap \<and> 2 \<le> m then 1 else 0)"

definition MakeDay :: "int \<Rightarrow> int \<Rightarrow> int \<Rightarrow> int" where
  "MakeDay year month date =
     (let ym = year + month div 12;
          mn = month mod 12
      in DayFromYear ym + daysBeforeMonth mn (InLeapYear ym) + date - 1)"

definition getTime :: "Date \<Rightarrow> int" where
  "getTime d = MakeDay (utcFullYear d) (utcMonth d) (utcDate d) * msPerDay + msOfDay d"

text \<open>
  \<open>new Date(Date.UTC(year, month, 1))\<close>: midnight UTC on the first day of a month. A month
  outside 0 to 11 carries into the year, and a year from 0 to 99 means 1900 + year.
\<close>

definition Date_UTC_first :: "int \<Rightarrow> int \<Rightarrow> Date" where
  "Date_UTC_first year month =
     (let yr = (if 0 \<le> year \<and> year \<le> 99 then 1900 + year else year)
      in \<lparr> utcFullYear = yr + month div 12, utcMonth = month mod 12,
           utcDate = 1, msOfDay = 0 \<rparr>)"

section \<open>The fit engine (src/lib/powerlaw.ts)\<close>

text \<open>
  Interfaces are records. The fields of all records share one name space here, so where
  two interfaces of the source have a field of the same name, or a field has the name of
  a function, one of them carries a prefix: \<open>pt_daysSinceGenesis\<close> is the field
  \<open>daysSinceGenesis\<close> of a data point, \<open>step_date\<close> the \<open>date\<close> of a monthly step,
  \<open>summary_isLiquidated\<close> the \<open>isLiquidated\<close> of the summary, \<open>pp_\<close> and \<open>hp_\<close> mark the
  fields of a price-path point and of a historical price point.
\<close>

record PriceDataPoint =
  date :: Date
  timestamp :: number
  price :: number
  pt_daysSinceGenesis :: number

record PowerLawFit =
  A :: number
  B :: number
  rSquared :: number
  sigma :: number

definition BITCOIN_GENESIS_DATE :: Date where
  "BITCOIN_GENESIS_DATE = \<lparr> utcFullYear = 2009, utcMonth = 0, utcDate = 3, msOfDay = 0 \<rparr>"

definition daysSinceGenesis :: "Date \<Rightarrow> int" where
  "daysSinceGenesis d =
     (let diffMs = getTime d - getTime BITCOIN_GENESIS_DATE
      in diffMs div (1000 * 60 * 60 * 24))"

definition powerLawPrice :: "number \<Rightarrow> PowerLawFit \<Rightarrow> number" where
  "powerLawPrice days fit = A fit * Math_pow days (B fit)"

definition calculateDeviation :: "number \<Rightarrow> number \<Rightarrow> number" where
  "calculateDeviation actualPrice fittedPrice =
     (if fittedPrice = Fin 0 then Fin 0
      else ((actualPrice - fittedPrice) / fittedPrice) * Fin 100)"

definition calculateSigmaDeviation :: "number \<Rightarrow> number \<Rightarrow> number \<Rightarrow> number" where
  "calculateSigmaDeviation actualPrice fittedPrice sg =
     (if fittedPrice \<le> Fin 0 \<or> sg = Fin 0 then Fin 0
      else (let logResidual = Math_log actualPrice - Math_log fittedPrice
            in logResidual / sg))"

text \<open>
  \<open>fitPowerLaw\<close>: ordinary least squares on (log age, log price). The \<open>for\<close> loop that
  accumulates \<open>numerator\<close> and \<open>denominator\<close> is the left fold of its body over the
  indices \<open>0 ..< n\<close>, on the pair of the two accumulators; \<open>x ** 2\<close> is
  \<open>Math_pow x 2\<close>. No division is guarded in the source, so none is guarded here:
  \<open>0 / 0\<close> is \<open>NaN\<close>. The fields \<open>A\<close> and \<open>B\<close> are computed as \<open>coeff\<close> and
  \<open>slope\<close>, \<open>sigma\<close> as \<open>sg\<close>.
\<close>

definition fitPowerLaw :: "PriceDataPoint list \<Rightarrow> PowerLawFit" where
  "fitPowerLaw data =
     (let validData = filter (\<lambda>d. price d > Fin 0 \<and> pt_daysSinceGenesis d > Fin 0) data
      in if length validData < 2
         then \<lparr> A = Fin 0, B = Fin 0, rSquared = Fin 0, sigma = Fin 0 \<rparr>
         else
          (let n = length validData;
               logT = map (\<lambda>d. Math_log (pt_daysSinceGenesis d)) validData;
               logP = map (\<lambda>d. Math_log (price d)) validData;
               meanLogT = sum_reduce logT / Fin (real n);
               meanLogP = sum_reduce logP / Fin (real n);
               (numerator, denominator) =
                 foldl (\<lambda>(num, den) i.
                          (num + (logT ! i - meanLogT) * (logP ! i - meanLogP),
                           den + Math_pow (logT ! i - meanLogT) (Fin 2)))
                   (Fin 0, Fin 0) [0 ..< n];
               slope = numerator / denominator;
               logA = meanLogP - slope * meanLogT;
               coeff = Math_exp logA;
               predictedLogP = map (\<lambda>lt. logA + slope * lt) logT;
               residuals = map (\<lambda>(lp, i). lp - predictedLogP ! i) (zip logP [0 ..< n]);
               ssRes = foldl (\<lambda>acc r. acc + Math_pow r (Fin 2)) (Fin 0) residuals;
               ssTot = foldl (\<lambda>acc lp. acc + Math_pow (lp - meanLogP) (Fin 2)) (Fin 0) logP;
               r2 = Fin 1 - ssRes / ssTot;
               meanResidual = sum_reduce residuals / Fin (real n);
               variance = foldl (\<lambda>acc r. acc + Math_pow (r - meanResidual) (Fin 2))
                            (Fin 0) residuals / Fin (real n - 1);
               sg = Math_sqrt variance
           in \<lparr> A = coeff, B = slope, rSquared = r2, sigma = sg \<rparr>))"

record FittedDataPoint = PriceDataPoint +
  fittedPrice :: number
  deviationPercent :: number
  sigmaDeviation :: number
  logResidual :: number
  band1SigmaUpper :: number
  band1SigmaLower :: number
  band2SigmaUpper :: number
  band2SigmaLower :: number

text \<open>The callback of \<open>applyFitToData\<close>: the point \<open>d\<close> is spread and extended.\<close>

definition applyFit :: "PowerLawFit \<Rightarrow> PriceDataPoint \<Rightarrow> FittedDataPoint" where
  "applyFit fit d =
     (let fitted = powerLawPrice (pt_daysSinceGenesis d) fit;
          devPercent = calculateDeviation (price d) fitted;
          sigmaDev = calculateSigmaDeviation (price d) fitted (sigma fit);
          logRes = (if price d > Fin 0 \<and> fitted > Fin 0
                    then Math_log (price d) - Math_log fitted else Fin 0);
          b1u = fitted * Math_exp (sigma fit);
          b1l = fitted * Math_exp (- sigma fit);
          b2u = fitted * Math_exp (Fin 2 * sigma fit);
          b2l = fitted * Math_exp (Fin (- 2) * sigma fit)
      in PriceDataPoint.extend d
           (FittedDataPoint.fields fitted devPercent sigmaDev logRes b1u b1l b2u b2l))"

definition applyFitToData :: "PriceDataPoint list \<Rightarrow> PowerLawFit \<Rightarrow> FittedDataPoint list" where
  "applyFitToData data fit = map (applyFit fit) data"

section \<open>The borrowing simulator (lib/bbd-simulator.ts)\<close>

datatype PriceScenario = fair | plus1sigma | plus2sigma | minus1sigma | minus2sigma

datatype InterestMode = capitalize | pay_monthly

datatype BorrowFrequency = monthly | yearly

text \<open>
  The configuration. The interface \<open>BBDSimulatorConfig\<close> of the simulator declares the
  fields up to \<open>startDate\<close>. The controls component and the simulator's tests build
  their configurations with one more property, \<open>spendingSteps\<close>, a list of
  \<open>{ startYear, monthlySpendingUsd }\<close> (the controls admit a start year from 2 to
  \<open>projectionYears\<close> and an amount above 0, and say that year 1 uses the base spending);
  the record carries it as its last field, so that a configuration is the object the
  callers pass. The field \<open>monthlySpendingUsd\<close> of a step-up is \<open>step_monthlySpendingUsd\<close>.
  No function of the simulator reads \<open>spendingSteps\<close>.
\<close>

record SpendingStep =
  startYear :: number
  step_monthlySpendingUsd :: number

record BBDSimulatorConfig =
  btcHeld :: number
  monthlySpendingUsd :: number
  interestAprPercent :: number
  liquidationLtvPercent :: number
  startingLtvPercent :: "number option"
  borrowMonthly :: bool
  borrowFrequency :: BorrowFrequency
  interestMode :: InterestMode
  projectionYears :: number
  scenario :: PriceScenario
  startDate :: string
  spendingSteps :: "SpendingStep list"

record BBDMonthlyStep =
  month :: nat
  year :: nat
  step_date :: Date
  btcPrice :: number
  collateralValue :: number
  loanBalance :: number
  ltv :: number
  netEquity :: number
  interestPaidThisMonth :: number
  borrowedThisMonth :: number
  isLiquidated :: bool
  isProjection :: bool

record BBDSimulationSummary =
  initialCollateralValue :: number
  finalCollateralValue :: "number option"
  initialLoanBalance :: number
  finalLoanBalance :: "number option"
  initialLtv :: number
  finalLtv :: "number option"
  initialNetEquity :: number
  finalNetEquity :: "number option"
  totalInterestPaid :: number
  totalBorrowed :: number
  summary_isLiquidated :: bool
  liquidationMonth :: "nat option"
  monthsUntilLiquidation :: "nat option"

record BBDSimulationResult =
  config :: BBDSimulatorConfig
  steps :: "BBDMonthlyStep list"
  summary :: BBDSimulationSummary

text \<open>An element of a price path, \<open>{ date, price, isProjection }\<close>.\<close>

record PricePathPoint =
  pp_date :: Date
  pp_price :: number
  pp_isProjection :: bool

record HistoricalPricePoint =
  hp_date :: Date
  hp_price :: number

definition getScenarioPrice :: "Date \<Rightarrow> PowerLawFit \<Rightarrow> PriceScenario \<Rightarrow> number" where
  "getScenarioPrice d fit scen =
     (let days = daysSinceGenesis d;
          fitted = powerLawPrice (Fin (real_of_int days)) fit
      in case scen of
           fair \<Rightarrow> fitted
         | plus1sigma \<Rightarrow> fitted * Math_exp (sigma fit)
         | plus2sigma \<Rightarrow> fitted * Math_exp (Fin 2 * sigma fit)
         | minus1sigma \<Rightarrow> fitted * Math_exp (- sigma fit)
         | minus2sigma \<Rightarrow> fitted * Math_exp (Fin (- 2) * sigma fit))"

text \<open>
  The loop of \<open>generatePricePath\<close>, \<open>for (let month = 0; month <= totalMonths; month++)\<close>,
  with the counter \<open>m\<close> and the array built so far. \<open>projectionYears\<close> is a
  \<open>number\<close>, and so is \<open>totalMonths\<close>: it need not be an integer, and when it is
  \<open>NaN\<close> or \<open>-Infinity\<close> the test fails at once and the path is empty. When it is
  \<open>+Infinity\<close> the test never fails and the function does not return (in an engine the
  array grows until memory runs out); not returning is the value \<open>None\<close>. The counter
  is an exact integer.
\<close>

partial_function (option) generatePricePath_loop ::
  "Date \<Rightarrow> number \<Rightarrow> PowerLawFit \<Rightarrow> PriceScenario \<Rightarrow> int \<Rightarrow> PricePathPoint list
     \<Rightarrow> PricePathPoint list option" where
  "generatePricePath_loop start totalMonths fit scen m path =
     (if Fin (real_of_int m) \<le> totalMonths then
        (let d = Date_UTC_first (getUTCFullYear start) (getUTCMonth start + m);
             p = getScenarioPrice d fit scen
         in generatePricePath_loop start totalMonths fit scen (m + 1)
              (path @ [\<lparr> pp_date = d, pp_price = p, pp_isProjection = True \<rparr>]))
      else Some path)"

definition generatePricePath ::
  "Date \<Rightarrow> number \<Rightarrow> PowerLawFit \<Rightarrow> PriceScenario \<Rightarrow> PricePathPoint list option" where
  "generatePricePath start years fit scen =
     (let totalMonths = years * Fin 12
      in generatePricePath_loop start totalMonths fit scen 0 [])"

text \<open>
  \<open>generateMixedPricePath\<close> reads the clock: \<open>const today = new Date()\<close>. The value the
  clock returns is the first argument \<open>today\<close> of the model. The keys of
  \<open>historicalMap\<close> are the strings year-month with the month (1 to 12) padded to two
  digits; the pair (year, month) stands for such a string, and two pairs differ exactly
  when their strings do.
\<close>

definition monthKey :: "Date \<Rightarrow> int \<times> int" where
  "monthKey d = (getUTCFullYear d, getUTCMonth d + 1)"

definition historicalMap :: "HistoricalPricePoint list \<Rightarrow> (int \<times> int \<rightharpoonup> number)" where
  "historicalMap historicalData =
     foldl (\<lambda>hm point. hm(monthKey (hp_date point) \<mapsto> hp_price point)) Map.empty historicalData"

partial_function (option) generateMixedPricePath_loop ::
  "Date \<Rightarrow> number \<Rightarrow> PowerLawFit \<Rightarrow> PriceScenario \<Rightarrow> Date \<Rightarrow> (int \<times> int \<rightharpoonup> number) \<Rightarrow> int
     \<Rightarrow> PricePathPoint list \<Rightarrow> PricePathPoint list option" where
  "generateMixedPricePath_loop start totalMonths fit scen todayMonth hm m path =
     (if Fin (real_of_int m) \<le> totalMonths then
        (let d = Date_UTC_first (getUTCFullYear start) (getUTCMonth start + m);
             dateKey = monthKey d;
             isBeforeOrToday = (getTime d \<le> getTime todayMonth);
             historicalPrice = hm dateKey
         in generateMixedPricePath_loop start totalMonths fit scen todayMonth hm (m + 1)
              (path @
                [case historicalPrice of
                   Some hp \<Rightarrow>
                     (if isBeforeOrToday
                      then \<lparr> pp_date = d, pp_price = hp, pp_isProjection = False \<rparr>
                      else \<lparr> pp_date = d, pp_price = getScenarioPrice d fit scen,
                             pp_isProjection = True \<rparr>)
                 | None \<Rightarrow>
                     \<lparr> pp_date = d, pp_price = getScenarioPrice d fit scen,
                       pp_isProjection = True \<rparr>]))
      else Some path)"

definition generateMixedPricePath ::
  "Date \<Rightarrow> Date \<Rightarrow> number \<Rightarrow> PowerLawFit \<Rightarrow> PriceScenario \<Rightarrow> HistoricalPricePoint list
     \<Rightarrow> PricePathPoint list option" where
  "generateMixedPricePath today start years fit scen historicalData =
     (let totalMonths = years * Fin 12;
          todayMonth = Date_UTC_first (getUTCFullYear today) (getUTCMonth today)
      in generateMixedPricePath_loop start totalMonths fit scen todayMonth
           (historicalMap historicalData) 0 [])"

text \<open>The mutable locals of \<open>runBBDSimulation\<close>, and the array \<open>steps\<close>.\<close>

record SimState =
  st_loanBalance :: number
  st_totalInterestPaid :: number
  st_totalBorrowed :: number
  st_isLiquidated :: bool
  st_liquidationMonth :: "nat option"
  st_steps :: "BBDMonthlyStep list"

definition monthlyInterestRate :: "BBDSimulatorConfig \<Rightarrow> number" where
  "monthlyInterestRate cfg = interestAprPercent cfg / Fin 100 / Fin 12"

definition liquidationLtv :: "BBDSimulatorConfig \<Rightarrow> number" where
  "liquidationLtv cfg = liquidationLtvPercent cfg / Fin 100"

text \<open>
  The borrowing block of month \<open>i\<close>: the state after it, and \<open>borrowedThisMonth\<close>.
\<close>

definition borrow_block :: "BBDSimulatorConfig \<Rightarrow> nat \<Rightarrow> SimState \<Rightarrow> SimState \<times> number" where
  "borrow_block cfg i st =
     (if borrowMonthly cfg \<and> i > 0 then
        (case borrowFrequency cfg of
           monthly \<Rightarrow>
             (st\<lparr> st_loanBalance := st_loanBalance st + monthlySpendingUsd cfg,
                  st_totalBorrowed := st_totalBorrowed st + monthlySpendingUsd cfg \<rparr>,
              monthlySpendingUsd cfg)
         | yearly \<Rightarrow>
             (if i mod 12 = 0 then
                (let yearlyAmount = monthlySpendingUsd cfg * Fin 12
                 in (st\<lparr> st_loanBalance := st_loanBalance st + yearlyAmount,
                         st_totalBorrowed := st_totalBorrowed st + yearlyAmount \<rparr>,
                     yearlyAmount))
              else (st, Fin 0)))
      else (st, Fin 0))"

text \<open>The interest block: the state after it, and \<open>interestPaidThisMonth\<close>.\<close>

definition interest_block :: "BBDSimulatorConfig \<Rightarrow> nat \<Rightarrow> SimState \<Rightarrow> SimState \<times> number" where
  "interest_block cfg i st =
     (if i > 0 then
        (let interestAmount = st_loanBalance st * monthlyInterestRate cfg
         in case interestMode cfg of
              capitalize \<Rightarrow> (st\<lparr> st_loanBalance := st_loanBalance st + interestAmount \<rparr>, Fin 0)
            | pay_monthly \<Rightarrow>
                (st\<lparr> st_totalInterestPaid := st_totalInterestPaid st + interestAmount \<rparr>,
                 interestAmount))
      else (st, Fin 0))"

text \<open>One pass through the body of the simulation loop, up to \<open>steps.push\<close>.\<close>

definition simulate_month ::
  "BBDSimulatorConfig \<Rightarrow> PricePathPoint \<Rightarrow> nat \<Rightarrow> SimState \<Rightarrow> SimState" where
  "simulate_month cfg pt i st =
     (let collateral = btcHeld cfg * pp_price pt;
          (st1, borrowed) = borrow_block cfg i st;
          (st2, interestPaid) = interest_block cfg i st1;
          ltvNow = (if collateral > Fin 0 then st_loanBalance st2 / collateral else Fin 0);
          equity = collateral - st_loanBalance st2;
          st3 = (if ltvNow \<ge> liquidationLtv cfg \<and> \<not> st_isLiquidated st2
                 then st2\<lparr> st_isLiquidated := True, st_liquidationMonth := Some i \<rparr>
                 else st2)
      in st3\<lparr> st_steps := st_steps st3 @
           [\<lparr> month = i, year = i div 12, step_date = pp_date pt, btcPrice = pp_price pt,
              collateralValue = collateral, loanBalance = st_loanBalance st3, ltv = ltvNow,
              netEquity = equity, interestPaidThisMonth = interestPaid,
              borrowedThisMonth = borrowed, isLiquidated = st_isLiquidated st3,
              isProjection = pp_isProjection pt \<rparr>] \<rparr>)"

text \<open>
  The loop \<open>for (let i = 0; i < pricePath.length; i++)\<close> with its \<open>break\<close> after a
  liquidated step.
\<close>

function simulate_loop ::
  "BBDSimulatorConfig \<Rightarrow> PricePathPoint list \<Rightarrow> nat \<Rightarrow> SimState \<Rightarrow> SimState" where
  "simulate_loop cfg pricePath i st =
     (if i < length pricePath then
        (let st' = simulate_month cfg (pricePath ! i) i st
         in if st_isLiquidated st' then st' else simulate_loop cfg pricePath (i + 1) st')
      else st)"
  by pat_completeness auto
termination
  by (relation "measure (\<lambda>(cfg, pricePath, i, st). length pricePath - i)") auto

text \<open>
  Reading a property of \<open>undefined\<close> throws a \<open>TypeError\<close>: \<open>pricePath[0].price\<close> on an
  empty path, \<open>firstStep.collateralValue\<close> on an empty \<open>steps\<close>. The source has no
  \<open>throw\<close> of its own.
\<close>

datatype error = TypeError

definition initial_state :: "BBDSimulatorConfig \<Rightarrow> PricePathPoint list \<Rightarrow> error + SimState" where
  "initial_state cfg pricePath =
     (let st0 = \<lparr> st_loanBalance = Fin 0, st_totalInterestPaid = Fin 0,
                   st_totalBorrowed = Fin 0, st_isLiquidated = False,
                   st_liquidationMonth = None, st_steps = [] \<rparr>
      in case startingLtvPercent cfg of
           Some pct \<Rightarrow>
             (if \<not> borrowMonthly cfg then
                (case pricePath of
                   [] \<Rightarrow> Inl TypeError
                 | p0 # _ \<Rightarrow>
                     (let initialPrice = pp_price p0;
                          initialCollateral = btcHeld cfg * initialPrice;
                          startingLtv = pct / Fin 100;
                          loan = initialCollateral * startingLtv
                      in Inr (st0\<lparr> st_loanBalance := loan, st_totalBorrowed := loan \<rparr>)))
              else Inr st0)
         | None \<Rightarrow> Inr st0)"

definition make_summary :: "SimState \<Rightarrow> error + BBDSimulationSummary" where
  "make_summary st =
     (case st_steps st of
        [] \<Rightarrow> Inl TypeError
      | firstStep # _ \<Rightarrow>
          (let lastStep = last (st_steps st);
               liq = st_isLiquidated st
           in Inr \<lparr> initialCollateralValue = collateralValue firstStep,
                    finalCollateralValue = (if liq then None else Some (collateralValue lastStep)),
                    initialLoanBalance = loanBalance firstStep,
                    finalLoanBalance = (if liq then None else Some (loanBalance lastStep)),
                    initialLtv = ltv firstStep,
                    finalLtv = (if liq then None else Some (ltv lastStep)),
                    initialNetEquity = netEquity firstStep,
                    finalNetEquity = (if liq then None else Some (netEquity lastStep)),
                    totalInterestPaid = st_totalInterestPaid st,
                    totalBorrowed = st_totalBorrowed st,
                    summary_isLiquidated = liq,
                    liquidationMonth = st_liquidationMonth st,
                    monthsUntilLiquidation = st_liquidationMonth st \<rparr>))"

text \<open>
  \<open>runBBDSimulation\<close>. The first argument is the clock value that
  \<open>generateMixedPricePath\<close> reads; \<open>historicalData\<close> is optional. The constant
  \<open>pricePath\<close> of the source is \<open>select_pricePath\<close>. The result is \<open>None\<close> when the
  function does not return, \<open>Some (Inl e)\<close> when it throws \<open>e\<close>, and \<open>Some (Inr r)\<close>
  when it returns \<open>r\<close>.
\<close>

definition select_pricePath ::
  "Date \<Rightarrow> BBDSimulatorConfig \<Rightarrow> PowerLawFit \<Rightarrow> Date \<Rightarrow> HistoricalPricePoint list option
     \<Rightarrow> PricePathPoint list option" where
  "select_pricePath today cfg fit start historicalData =
     (case historicalData of
        Some hist \<Rightarrow>
          (if length hist > 0
           then generateMixedPricePath today start (projectionYears cfg) fit (scenario cfg) hist
           else generatePricePath start (projectionYears cfg) fit (scenario cfg))
      | None \<Rightarrow> generatePricePath start (projectionYears cfg) fit (scenario cfg))"

definition runBBDSimulation ::
  "Date \<Rightarrow> BBDSimulatorConfig \<Rightarrow> PowerLawFit \<Rightarrow> Date \<Rightarrow> HistoricalPricePoint list option
     \<Rightarrow> (error + BBDSimulationResult) option" where
  "runBBDSimulation today cfg fit start historicalData =
     (case select_pricePath today cfg fit start historicalData of
        None \<Rightarrow> None
      | Some pricePath \<Rightarrow>
          Some (case initial_state cfg pricePath of
                  Inl e \<Rightarrow> Inl e
                | Inr st0 \<Rightarrow>
                    (let st = simulate_loop cfg pricePath 0 st0
                     in case make_summary st of
                          Inl e \<Rightarrow> Inl e
                        | Inr sm \<Rightarrow>
                            Inr \<lparr> config = cfg, steps = st_steps st, summary = sm \<rparr>)))"

section \<open>Loop invariants and concrete inputs\<close>


text \<open>
  Concrete inputs. \<open>baseConfig\<close> is the configuration of the simulator's tests with a
  horizon of one year. \<open>flatFit\<close> has exponent 0, so the model price is 12000 at every
  date (\<open>Math.pow(days, 0)\<close> is 1); \<open>testDate\<close> is 1 January 2025, midnight UTC.
\<close>

definition baseConfig :: BBDSimulatorConfig where
  "baseConfig =
     \<lparr> btcHeld = Fin 1, monthlySpendingUsd = Fin 5000, interestAprPercent = Fin 10,
       liquidationLtvPercent = Fin 80, startingLtvPercent = None, borrowMonthly = True,
       borrowFrequency = monthly, interestMode = capitalize, projectionYears = Fin 1,
       scenario = fair, startDate = ''2025-01'', spendingSteps = [] \<rparr>"

definition flatFit :: PowerLawFit where
  "flatFit = \<lparr> A = Fin 12000, B = Fin 0, rSquared = Fin 1, sigma = Fin 0 \<rparr>"

definition testDate :: Date where
  "testDate = \<lparr> utcFullYear = 2025, utcMonth = 0, utcDate = 1, msOfDay = 0 \<rparr>"


definition lumpSumConfig :: BBDSimulatorConfig where
  "lumpSumConfig =
     baseConfig\<lparr> startingLtvPercent := Some (Fin 20), borrowMonthly := False,
                 interestMode := pay_monthly \<rparr>"


text \<open>
  A start date in the middle of a month; the first of March 2025 with a one-point price
  history for that month; and two data points recorded on the same day.
\<close>

definition midMonthDate :: Date where
  "midMonthDate = \<lparr> utcFullYear = 2025, utcMonth = 0, utcDate = 15, msOfDay = 0 \<rparr>"

definition marchDate :: Date where
  "marchDate = \<lparr> utcFullYear = 2025, utcMonth = 2, utcDate = 1, msOfDay = 0 \<rparr>"

definition marchHistory :: "HistoricalPricePoint list" where
  "marchHistory = [\<lparr> hp_date = marchDate, hp_price = Fin 99999 \<rparr>]"

definition sameDayData :: "PriceDataPoint list" where
  "sameDayData =
     [\<lparr> date = testDate, timestamp = Fin 1735689600000, price = Fin 1,
        pt_daysSinceGenesis = Fin 5 \<rparr>,
      \<lparr> date = testDate, timestamp = Fin 1735689600000, price = Fin 2,
        pt_daysSinceGenesis = Fin 5 \<rparr>]"

text \<open>The series of the test that checks the filtering of invalid points.\<close>

definition filterTestData :: "PriceDataPoint list" where
  "filterTestData =
     [\<lparr> date = testDate, timestamp = Fin 1735689600000, price = Fin 0,
        pt_daysSinceGenesis = Fin 100 \<rparr>,
      \<lparr> date = testDate, timestamp = Fin 1735689600000, price = Fin (- 10),
        pt_daysSinceGenesis = Fin 200 \<rparr>,
      \<lparr> date = testDate, timestamp = Fin 1735689600000, price = Fin 100,
        pt_daysSinceGenesis = Fin 0 \<rparr>,
      \<lparr> date = testDate, timestamp = Fin 1735689600000, price = Fin 100,
        pt_daysSinceGenesis = Fin 300 \<rparr>,
      \<lparr> date = testDate, timestamp = Fin 1735689600000, price = Fin 900,
        pt_daysSinceGenesis = Fin 600 \<rparr>,
      \<lparr> date = testDate, timestamp = Fin 1735689600000, price = Fin 2700,
        pt_daysSinceGenesis = Fin 900 \<rparr>]"

text \<open>The fit and the data point of the band tests of \<open>applyFitToData\<close>.\<close>

definition bandFit :: PowerLawFit where
  "bandFit = \<lparr> A = Fin 1, B = Fin 2, rSquared = Fin (99 / 100), sigma = Fin (1 / 2) \<rparr>"

text \<open>The fit of the band tests with \<open>sigma = Infinity\<close>.\<close>

definition infiniteSigmaFit :: PowerLawFit where
  "infiniteSigmaFit = bandFit\<lparr> sigma := PInf \<rparr>"

definition bandData :: "PriceDataPoint list" where
  "bandData =
     [\<lparr> date = testDate, timestamp = Fin 1735689600000, price = Fin 10000,
        pt_daysSinceGenesis = Fin 100 \<rparr>]"

section \<open>Arithmetic on finite numbers\<close>

lemma Fin_plus [simp]: "Fin a + Fin b = Fin (a + b)" by (simp add: plus_number_def)
lemma Fin_minus [simp]: "Fin a - Fin b = Fin (a - b)" by (simp add: minus_number_def)
lemma Fin_uminus [simp]: "- Fin a = Fin (- a)" by (simp add: uminus_number_def)
lemma Fin_times [simp]: "Fin a * Fin b = Fin (a * b)" by (simp add: times_number_def)
lemma Fin_divide [simp]: "b \<noteq> 0 \<Longrightarrow> Fin a / Fin b = Fin (a / b)" by (simp add: divide_number_def)
lemma Fin_less [simp]: "(Fin a < Fin b) = (a < b)" by (simp add: less_number_def)
lemma Fin_less_eq [simp]: "(Fin a \<le> Fin b) = (a \<le> b)" by (simp add: less_eq_number_def)

lemma num_add_zero_right [simp]: "(x::number) + Fin 0 = x"
  by (cases x) (simp_all add: plus_number_def)

lemma NaN_ops [simp]:
  "NaN + x = NaN" "x + NaN = NaN" "NaN - x = NaN" "x - NaN = NaN"
  "NaN * x = NaN" "x * NaN = NaN" "NaN / x = NaN" "x / NaN = NaN"
  "\<not> NaN < x" "\<not> x < NaN" "\<not> NaN \<le> x" "\<not> x \<le> NaN"
  by (cases x; simp add: plus_number_def minus_number_def times_number_def divide_number_def
      less_number_def less_eq_number_def)+

lemma Fin_divide_zero [simp]: "Fin a / Fin 0 = signed_inf a"
  by (simp add: divide_number_def)

lemma Math_pow_squared [simp]: "Math_pow (Fin x) (Fin 2) = Fin (x ^ 2)"
proof (cases "x > 0")
  case True
  then show ?thesis by simp
next
  case False
  then show ?thesis by (auto simp add: is_integer_def)
qed

section \<open>The simulation loop\<close>

text \<open>
  The loops are unfolded one iteration at a time, by the three rules below, and reasoned
  about by the invariant rule \<open>simulate_loop_rule\<close>: a property that holds of the
  initial state and is kept by every month that starts not liquidated holds of the final
  state.
\<close>

declare simulate_loop.simps [simp del]

lemma borrow_block_frame:
  "st_steps (fst (borrow_block cfg i st)) = st_steps st"
  "st_isLiquidated (fst (borrow_block cfg i st)) = st_isLiquidated st"
  "st_liquidationMonth (fst (borrow_block cfg i st)) = st_liquidationMonth st"
  "st_totalInterestPaid (fst (borrow_block cfg i st)) = st_totalInterestPaid st"
  by (simp_all add: borrow_block_def Let_def split: BorrowFrequency.split)

lemma interest_block_frame:
  "st_steps (fst (interest_block cfg i st)) = st_steps st"
  "st_isLiquidated (fst (interest_block cfg i st)) = st_isLiquidated st"
  "st_liquidationMonth (fst (interest_block cfg i st)) = st_liquidationMonth st"
  "st_totalBorrowed (fst (interest_block cfg i st)) = st_totalBorrowed st"
  by (simp_all add: interest_block_def Let_def split: InterestMode.split)

text \<open>
  One month appends exactly one step; its fields in terms of the state before and after
  the month.
\<close>

lemma simulate_month_steps:
  "\<exists>s. st_steps (simulate_month cfg pt i st) = st_steps st @ [s]
     \<and> month s = i
     \<and> collateralValue s = btcHeld cfg * pp_price pt
     \<and> btcPrice s = pp_price pt
     \<and> isProjection s = pp_isProjection pt
     \<and> loanBalance s = st_loanBalance (simulate_month cfg pt i st)
     \<and> isLiquidated s = st_isLiquidated (simulate_month cfg pt i st)
     \<and> borrowedThisMonth s = snd (borrow_block cfg i st)
     \<and> interestPaidThisMonth s = snd (interest_block cfg i (fst (borrow_block cfg i st)))
     \<and> ltv s = (if btcHeld cfg * pp_price pt > Fin 0
                then st_loanBalance (simulate_month cfg pt i st) / (btcHeld cfg * pp_price pt)
                else Fin 0)"
  by (simp add: simulate_month_def Let_def split_def borrow_block_frame interest_block_frame)

lemma simulate_month_state:
  "st_loanBalance (simulate_month cfg pt i st)
     = st_loanBalance (fst (interest_block cfg i (fst (borrow_block cfg i st))))"
  "st_totalBorrowed (simulate_month cfg pt i st) = st_totalBorrowed (fst (borrow_block cfg i st))"
  "st_totalInterestPaid (simulate_month cfg pt i st)
     = st_totalInterestPaid (fst (interest_block cfg i (fst (borrow_block cfg i st))))"
  by (simp_all add: simulate_month_def Let_def split_def borrow_block_frame interest_block_frame)


lemma simulate_month_length:
  "length (st_steps (simulate_month cfg pt i st)) = Suc (length (st_steps st))"
  using simulate_month_steps [of cfg pt i st] by auto

lemma simulate_loop_stop:
  "\<not> i < length pricePath \<Longrightarrow> simulate_loop cfg pricePath i st = st"
  by (subst simulate_loop.simps) simp

lemma simulate_loop_break:
  "i < length pricePath \<Longrightarrow> st_isLiquidated (simulate_month cfg (pricePath ! i) i st)
     \<Longrightarrow> simulate_loop cfg pricePath i st = simulate_month cfg (pricePath ! i) i st"
  by (subst simulate_loop.simps) (simp add: Let_def)

lemma simulate_loop_continue:
  "i < length pricePath \<Longrightarrow> \<not> st_isLiquidated (simulate_month cfg (pricePath ! i) i st)
     \<Longrightarrow> simulate_loop cfg pricePath i st
          = simulate_loop cfg pricePath (i + 1) (simulate_month cfg (pricePath ! i) i st)"
  by (subst simulate_loop.simps) (simp add: Let_def)

lemma simulate_loop_rule:
  assumes "P st" and "length (st_steps st) = i" and "\<not> st_isLiquidated st"
    and step: "\<And>s. P s \<Longrightarrow> \<not> st_isLiquidated s \<Longrightarrow> length (st_steps s) < length pricePath
            \<Longrightarrow> P (simulate_month cfg (pricePath ! length (st_steps s)) (length (st_steps s)) s)"
  shows "P (simulate_loop cfg pricePath i st)"
  using assms
proof (induction cfg pricePath i st rule: simulate_loop.induct)
  case (1 cfg pricePath i st)
  show ?case
  proof (cases "i < length pricePath")
    case False
    then show ?thesis using "1.prems" by (simp add: simulate_loop_stop)
  next
    case True
    let ?s = "simulate_month cfg (pricePath ! i) i st"
    have "length (st_steps st) < length pricePath" using True "1.prems"(2) by simp
    from "1.prems"(4) [OF "1.prems"(1) "1.prems"(3) this] have P': "P ?s" using "1.prems"(2) by simp
    show ?thesis
    proof (cases "st_isLiquidated ?s")
      case True
      then show ?thesis using P' \<open>i < length pricePath\<close> by (simp add: simulate_loop_break)
    next
      case False
      have "length (st_steps ?s) = i + 1"
        using "1.prems"(2) by (simp add: simulate_month_length)
      from "1.IH" [OF \<open>i < length pricePath\<close> refl False P' this False "1.prems"(4)]
      show ?thesis using False \<open>i < length pricePath\<close> by (simp add: simulate_loop_continue)
    qed
  qed
qed


section \<open>Price paths\<close>

text \<open>
  For a finite number of months the loop of \<open>generatePricePath\<close> returns: it appends one
  point for every integer from the counter to the floor of \<open>totalMonths\<close>. For
  \<open>+Infinity\<close> it does not return.
\<close>

lemma generatePricePath_loop_eq:
  "generatePricePath_loop start (Fin t) fit scen m path
     = Some (path @ map (\<lambda>k. \<lparr> pp_date = Date_UTC_first (getUTCFullYear start) (getUTCMonth start + k),
            pp_price = getScenarioPrice
                         (Date_UTC_first (getUTCFullYear start) (getUTCMonth start + k)) fit scen,
            pp_isProjection = True \<rparr>) [m..\<lfloor>t\<rfloor>])"
proof (induction "nat (\<lfloor>t\<rfloor> + 1 - m)" arbitrary: m path)
  case 0
  then have "\<not> m \<le> \<lfloor>t\<rfloor>" by simp
  then have "\<not> real_of_int m \<le> t" by (simp add: le_floor_iff)
  moreover have "[m..\<lfloor>t\<rfloor>] = []" using 0 by simp
  ultimately show ?case by (subst generatePricePath_loop.simps) simp
next
  case (Suc n)
  then have le: "m \<le> \<lfloor>t\<rfloor>" by simp
  then have c: "real_of_int m \<le> t" by (simp add: le_floor_iff)
  have "n = nat (\<lfloor>t\<rfloor> + 1 - (m + 1))" using Suc(2) by simp
  from Suc(1) [OF this] c le show ?case
    by (subst generatePricePath_loop.simps) (simp add: Let_def upto_rec1 [of m])
qed

lemma generatePricePath_loop_not_finite:
  "generatePricePath_loop start NaN fit scen m path = Some path"
  "generatePricePath_loop start NInf fit scen m path = Some path"
  by (subst generatePricePath_loop.simps, simp add: less_eq_number_def)+

lemma generatePricePath_loop_PInf:
  "generatePricePath_loop start PInf fit scen m path = None"
proof -
  have "tot \<noteq> PInf" if "generatePricePath_loop start tot fit scen m path = Some y" for tot y
  proof (rule generatePricePath_loop.raw_induct
      [where P = "\<lambda>start tot fit scen m path y. tot \<noteq> PInf", OF _ that])
    fix loop start tot fit scen m path y
    assume IH: "\<And>start tot fit scen m path y.
        loop start tot fit scen m path = Some y \<Longrightarrow> tot \<noteq> PInf"
      and body: "(if Fin (real_of_int m) \<le> tot then
        (let d = Date_UTC_first (getUTCFullYear start) (getUTCMonth start + m);
             p = getScenarioPrice d fit scen
         in loop start tot fit scen (m + 1)
              (path @ [\<lparr> pp_date = d, pp_price = p, pp_isProjection = True \<rparr>]))
      else Some path) = Some y"
    show "tot \<noteq> PInf"
    proof
      assume "tot = PInf"
      with body have "loop start PInf fit scen (m + 1)
          (path @ [\<lparr> pp_date = Date_UTC_first (getUTCFullYear start) (getUTCMonth start + m),
             pp_price = getScenarioPrice
                (Date_UTC_first (getUTCFullYear start) (getUTCMonth start + m)) fit scen,
             pp_isProjection = True \<rparr>]) = Some y"
        by (simp add: less_eq_number_def Let_def)
      from IH [OF this] show False by simp
    qed
  qed
  then show ?thesis by (cases "generatePricePath_loop start PInf fit scen m path") auto
qed

lemma generatePricePath_Fin:
  "generatePricePath start (Fin y) fit scen
     = Some (map (\<lambda>k. \<lparr> pp_date = Date_UTC_first (getUTCFullYear start) (getUTCMonth start + k),
            pp_price = getScenarioPrice
                         (Date_UTC_first (getUTCFullYear start) (getUTCMonth start + k)) fit scen,
            pp_isProjection = True \<rparr>) [0..\<lfloor>y * 12\<rfloor>])"
  by (simp add: generatePricePath_def generatePricePath_loop_eq)

lemma generatePricePath_not_finite:
  "generatePricePath start NaN fit scen = Some []"
  "generatePricePath start NInf fit scen = Some []"
  "generatePricePath start PInf fit scen = None"
  by (simp_all add: generatePricePath_def generatePricePath_loop_not_finite
      generatePricePath_loop_PInf times_number_def signed_inf_def)

text \<open>The same three cases for the loop of \<open>generateMixedPricePath\<close>.\<close>

lemma generateMixedPricePath_loop_eq:
  "generateMixedPricePath_loop start (Fin t) fit scen todayMonth hm m path
     = Some (path @ map (\<lambda>k.
         case hm (monthKey (Date_UTC_first (getUTCFullYear start) (getUTCMonth start + k))) of
           Some hp \<Rightarrow>
             (if getTime (Date_UTC_first (getUTCFullYear start) (getUTCMonth start + k))
                   \<le> getTime todayMonth
              then \<lparr> pp_date = Date_UTC_first (getUTCFullYear start) (getUTCMonth start + k),
                     pp_price = hp, pp_isProjection = False \<rparr>
              else \<lparr> pp_date = Date_UTC_first (getUTCFullYear start) (getUTCMonth start + k),
                     pp_price = getScenarioPrice
                       (Date_UTC_first (getUTCFullYear start) (getUTCMonth start + k)) fit scen,
                     pp_isProjection = True \<rparr>)
         | None \<Rightarrow>
             \<lparr> pp_date = Date_UTC_first (getUTCFullYear start) (getUTCMonth start + k),
               pp_price = getScenarioPrice
                 (Date_UTC_first (getUTCFullYear start) (getUTCMonth start + k)) fit scen,
               pp_isProjection = True \<rparr>) [m..\<lfloor>t\<rfloor>])"
proof (induction "nat (\<lfloor>t\<rfloor> + 1 - m)" arbitrary: m path)
  case 0
  then have "\<not> m \<le> \<lfloor>t\<rfloor>" by simp
  then have "\<not> real_of_int m \<le> t" by (simp add: le_floor_iff)
  moreover have "[m..\<lfloor>t\<rfloor>] = []" using 0 by simp
  ultimately show ?case by (subst generateMixedPricePath_loop.simps) simp
next
  case (Suc n)
  then have le: "m \<le> \<lfloor>t\<rfloor>" by simp
  then have c: "real_of_int m \<le> t" by (simp add: le_floor_iff)
  have "n = nat (\<lfloor>t\<rfloor> + 1 - (m + 1))" using Suc(2) by simp
  from Suc(1) [OF this] c le show ?case
    by (subst generateMixedPricePath_loop.simps) (simp add: Let_def upto_rec1 [of m])
qed

lemma generateMixedPricePath_loop_not_finite:
  "generateMixedPricePath_loop start NaN fit scen todayMonth hm m path = Some path"
  "generateMixedPricePath_loop start NInf fit scen todayMonth hm m path = Some path"
  by (subst generateMixedPricePath_loop.simps, simp add: less_eq_number_def)+

lemma generateMixedPricePath_loop_PInf:
  "generateMixedPricePath_loop start PInf fit scen todayMonth hm m path = None"
proof -
  have "tot \<noteq> PInf"
    if "generateMixedPricePath_loop start tot fit scen todayMonth hm m path = Some y" for tot y
  proof (rule generateMixedPricePath_loop.raw_induct
      [where P = "\<lambda>start tot fit scen todayMonth hm m path y. tot \<noteq> PInf", OF _ that])
    fix loop start tot fit scen todayMonth hm m path y
    assume IH: "\<And>start tot fit scen todayMonth hm m path y.
        loop start tot fit scen todayMonth hm m path = Some y \<Longrightarrow> tot \<noteq> PInf"
      and body: "(if Fin (real_of_int m) \<le> tot then
        (let d = Date_UTC_first (getUTCFullYear start) (getUTCMonth start + m);
             dateKey = monthKey d;
             isBeforeOrToday = (getTime d \<le> getTime todayMonth);
             historicalPrice = hm dateKey
         in loop start tot fit scen todayMonth hm (m + 1)
              (path @
                [case historicalPrice of
                   Some hp \<Rightarrow>
                     (if isBeforeOrToday
                      then \<lparr> pp_date = d, pp_price = hp, pp_isProjection = False \<rparr>
                      else \<lparr> pp_date = d, pp_price = getScenarioPrice d fit scen,
                             pp_isProjection = True \<rparr>)
                 | None \<Rightarrow>
                     \<lparr> pp_date = d, pp_price = getScenarioPrice d fit scen,
                       pp_isProjection = True \<rparr>]))
      else Some path) = Some y"
    show "tot \<noteq> PInf"
    proof
      assume "tot = PInf"
      with body obtain path' where
        "loop start PInf fit scen todayMonth hm (m + 1) path' = Some y"
        by (simp add: less_eq_number_def Let_def)
      from IH [OF this] show False by simp
    qed
  qed
  then show ?thesis
    by (cases "generateMixedPricePath_loop start PInf fit scen todayMonth hm m path") auto
qed

lemma generateMixedPricePath_length:
  "\<exists>path. generateMixedPricePath today start (Fin y) fit scen hist = Some path
     \<and> length path = nat (\<lfloor>y * 12\<rfloor> + 1)"
  by (simp add: generateMixedPricePath_def generateMixedPricePath_loop_eq Let_def)

lemma generateMixedPricePath_not_finite:
  "generateMixedPricePath today start NaN fit scen hist = Some []"
  "generateMixedPricePath today start NInf fit scen hist = Some []"
  "generateMixedPricePath today start PInf fit scen hist = None"
  by (simp_all add: generateMixedPricePath_def generateMixedPricePath_loop_not_finite
      generateMixedPricePath_loop_PInf times_number_def signed_inf_def Let_def)

text \<open>
  The price path of a run: with a finite horizon of \<open>y\<close> years it has one point for
  every integer from 0 to the floor of \<open>y * 12\<close>; with \<open>NaN\<close> or \<open>-Infinity\<close> it is
  empty; with \<open>+Infinity\<close> there is none.
\<close>

lemma select_pricePath_Fin:
  assumes "projectionYears cfg = Fin y"
  shows "\<exists>pricePath. select_pricePath today cfg fit start hist = Some pricePath
           \<and> length pricePath = nat (\<lfloor>y * 12\<rfloor> + 1)"
  using assms generateMixedPricePath_length [of today start y fit "scenario cfg"]
  by (auto simp add: select_pricePath_def generatePricePath_Fin split: option.split)

lemma select_pricePath_not_finite:
  "projectionYears cfg = NaN \<or> projectionYears cfg = NInf
     \<Longrightarrow> select_pricePath today cfg fit start hist = Some []"
  "projectionYears cfg = PInf \<Longrightarrow> select_pricePath today cfg fit start hist = None"
  by (auto simp add: select_pricePath_def generatePricePath_not_finite
      generateMixedPricePath_not_finite split: option.split)


lemma select_pricePath_None:
  "select_pricePath today cfg fit start None
     = generatePricePath start (projectionYears cfg) fit (scenario cfg)"
  by (simp add: select_pricePath_def)

section \<open>The whole run\<close>

lemma initial_state_props:
  assumes "initial_state cfg pricePath = Inr st0"
  shows "st_steps st0 = []" and "\<not> st_isLiquidated st0" and "st_liquidationMonth st0 = None"
    and "st_totalInterestPaid st0 = Fin 0" and "st_totalBorrowed st0 = st_loanBalance st0"
    and "st_loanBalance st0 =
          (case startingLtvPercent cfg of
             Some pct \<Rightarrow> (if \<not> borrowMonthly cfg
                          then btcHeld cfg * pp_price (pricePath ! 0) * (pct / Fin 100) else Fin 0)
           | None \<Rightarrow> Fin 0)"
  using assms
  by (auto simp add: initial_state_def Let_def split: option.splits if_splits list.splits)

lemma initial_state_nonempty:
  "pricePath \<noteq> [] \<Longrightarrow> \<exists>st0. initial_state cfg pricePath = Inr st0"
  by (cases pricePath) (auto simp add: initial_state_def Let_def split: option.splits)

lemma simulate_loop_steps_nonempty:
  assumes "pricePath \<noteq> []" and "st_steps st = []"
  shows "st_steps (simulate_loop cfg pricePath 0 st) \<noteq> []"
proof (cases "st_isLiquidated (simulate_month cfg (pricePath ! 0) 0 st)")
  case True
  then show ?thesis using assms
    by (simp add: simulate_loop_break) (metis simulate_month_length length_0_conv nat.distinct(1))
next
  case False
  have "1 \<le> length (st_steps (simulate_loop cfg pricePath 1 (simulate_month cfg (pricePath ! 0) 0 st)))"
    by (rule simulate_loop_rule [where P = "\<lambda>s. 1 \<le> length (st_steps s)"])
      (simp_all add: simulate_month_length assms False)
  then show ?thesis using assms False by (auto simp add: simulate_loop_continue)
qed

lemma make_summary_Inr:
  "st_steps st \<noteq> [] \<Longrightarrow> \<exists>sm. make_summary st = Inr sm"
  by (cases "st_steps st") (auto simp add: make_summary_def Let_def)

lemma make_summary_props:
  assumes "make_summary st = Inr sm"
  shows "st_steps st \<noteq> []" and "summary_isLiquidated sm = st_isLiquidated st"
    and "liquidationMonth sm = st_liquidationMonth st"
    and "totalInterestPaid sm = st_totalInterestPaid st"
    and "totalBorrowed sm = st_totalBorrowed st"
    and "initialLoanBalance sm = loanBalance (st_steps st ! 0)"
  using assms
  by (auto simp add: make_summary_def Let_def split: list.splits)

text \<open>
  What a run that returns a result went through: a price path, an initial state, the loop
  and the summary.
\<close>

lemma runBBDSimulation_Inr:
  assumes "runBBDSimulation today cfg fit start hist = Some (Inr r)"
  shows "\<exists>pricePath st0. select_pricePath today cfg fit start hist = Some pricePath
          \<and> initial_state cfg pricePath = Inr st0
          \<and> config r = cfg
          \<and> steps r = st_steps (simulate_loop cfg pricePath 0 st0)
          \<and> make_summary (simulate_loop cfg pricePath 0 st0) = Inr (summary r)"
  using assms
  by (auto simp add: runBBDSimulation_def Let_def split: sum.splits option.splits)

text \<open>
  The outcomes of \<open>runBBDSimulation\<close> by horizon. With a finite horizon that is not
  negative it returns a result, whatever the rest of the configuration. With a negative
  horizon, \<open>NaN\<close> or \<open>-Infinity\<close> the price path is empty and reading its first
  element, or the first step, throws. With \<open>+Infinity\<close> it does not return.
\<close>

lemma runBBDSimulation_returns:
  assumes "projectionYears cfg = Fin y" and "0 \<le> y"
  shows "\<exists>r. runBBDSimulation today cfg fit start hist = Some (Inr r)"
proof -
  obtain P where P: "select_pricePath today cfg fit start hist = Some P"
      "length P = nat (\<lfloor>y * 12\<rfloor> + 1)"
    using select_pricePath_Fin [OF assms(1)] by blast
  have "0 \<le> \<lfloor>y * 12\<rfloor>" using assms(2) by simp
  with P(2) have "0 < length P" by simp
  then have ne: "P \<noteq> []" by auto
  then obtain st0 where st0: "initial_state cfg P = Inr st0"
    using initial_state_nonempty by blast
  then have "st_steps (simulate_loop cfg P 0 st0) \<noteq> []"
    using simulate_loop_steps_nonempty [OF ne] initial_state_props(1) by blast
  then obtain sm where "make_summary (simulate_loop cfg P 0 st0) = Inr sm"
    using make_summary_Inr by blast
  then show ?thesis using st0 P(1) by (simp add: runBBDSimulation_def Let_def)
qed

lemma runBBDSimulation_empty_path:
  assumes "select_pricePath today cfg fit start hist = Some []"
  shows "runBBDSimulation today cfg fit start hist = Some (Inl TypeError)"
  using assms
  by (auto simp add: runBBDSimulation_def Let_def initial_state_def simulate_loop_stop
      make_summary_def split: option.splits sum.splits)

lemma runBBDSimulation_throws:
  assumes "(\<exists>y. projectionYears cfg = Fin y \<and> y < 0) \<or> projectionYears cfg = NaN
             \<or> projectionYears cfg = NInf"
  shows "runBBDSimulation today cfg fit start hist = Some (Inl TypeError)"
proof (rule runBBDSimulation_empty_path)
  show "select_pricePath today cfg fit start hist = Some []"
  proof (cases "projectionYears cfg")
    case (Fin y)
    with assms have "y < 0" by simp
    then have "\<lfloor>y * 12\<rfloor> < 0" by (simp add: floor_less_iff)
    then have "\<lfloor>y * 12\<rfloor> + 1 \<le> 0" by linarith
    then have "nat (\<lfloor>y * 12\<rfloor> + 1) = 0" by (rule nat_0_iff [THEN iffD2])
    with select_pricePath_Fin [OF Fin, of today fit start hist] show ?thesis by auto
  next
    case PInf
    then show ?thesis using assms by simp
  next
    case NInf
    then show ?thesis by (simp add: select_pricePath_not_finite)
  next
    case NaN
    then show ?thesis by (simp add: select_pricePath_not_finite)
  qed
qed

lemma runBBDSimulation_diverges:
  "projectionYears cfg = PInf \<Longrightarrow> runBBDSimulation today cfg fit start hist = None"
  by (simp add: runBBDSimulation_def select_pricePath_not_finite)

text \<open>On a path that is not empty the initial state reads the first price by index.\<close>

lemma initial_state_nth:
  "pricePath \<noteq> [] \<Longrightarrow> initial_state cfg pricePath =
     Inr (case startingLtvPercent cfg of
            Some pct \<Rightarrow>
              (if \<not> borrowMonthly cfg
               then \<lparr> st_loanBalance = btcHeld cfg * pp_price (pricePath ! 0) * (pct / Fin 100),
                      st_totalInterestPaid = Fin 0,
                      st_totalBorrowed = btcHeld cfg * pp_price (pricePath ! 0) * (pct / Fin 100),
                      st_isLiquidated = False, st_liquidationMonth = None, st_steps = [] \<rparr>
               else \<lparr> st_loanBalance = Fin 0, st_totalInterestPaid = Fin 0,
                      st_totalBorrowed = Fin 0, st_isLiquidated = False,
                      st_liquidationMonth = None, st_steps = [] \<rparr>)
          | None \<Rightarrow>
              \<lparr> st_loanBalance = Fin 0, st_totalInterestPaid = Fin 0,
                st_totalBorrowed = Fin 0, st_isLiquidated = False,
                st_liquidationMonth = None, st_steps = [] \<rparr>)"
  by (cases pricePath) (simp_all add: initial_state_def Let_def split: option.split)

text \<open>Rules that run the model on a concrete input, one loop iteration at a time.\<close>

lemmas run_simps = runBBDSimulation_def select_pricePath_None generatePricePath_Fin
  simulate_loop_continue simulate_loop_break
  simulate_loop_stop simulate_month_def borrow_block_def interest_block_def initial_state_nth
  make_summary_def getScenarioPrice_def powerLawPrice_def monthlyInterestRate_def
  liquidationLtv_def Let_def



text \<open>
  Two configurations on which every month of the loop does the same run the same loop, and
  if they also give the same price path and the same initial state, the same simulation:
  the results differ in the field \<open>config\<close> alone.
\<close>

lemma simulate_loop_cong:
  assumes "\<And>pt i st. simulate_month cfg' pt i st = simulate_month cfg pt i st"
  shows "simulate_loop cfg' pricePath i st = simulate_loop cfg pricePath i st"
  using assms
proof (induction cfg pricePath i st rule: simulate_loop.induct)
  case (1 cfg pricePath i st)
  show ?case
  proof (cases "i < length pricePath")
    case False
    then show ?thesis by (simp add: simulate_loop_stop)
  next
    case True
    let ?s = "simulate_month cfg (pricePath ! i) i st"
    have e: "simulate_month cfg' (pricePath ! i) i st = ?s" using "1.prems" by simp
    show ?thesis
    proof (cases "st_isLiquidated ?s")
      case True
      then show ?thesis using \<open>i < length pricePath\<close> e by (simp add: simulate_loop_break)
    next
      case False
      from "1.IH" [OF \<open>i < length pricePath\<close> refl False "1.prems"]
      show ?thesis using False \<open>i < length pricePath\<close> e by (simp add: simulate_loop_continue)
    qed
  qed
qed

lemma runBBDSimulation_cong:
  assumes path: "select_pricePath today cfg' fit start hist
                   = select_pricePath today cfg fit start hist"
    and init: "\<And>pricePath. initial_state cfg' pricePath = initial_state cfg pricePath"
    and month: "\<And>pt i st. simulate_month cfg' pt i st = simulate_month cfg pt i st"
    and run: "runBBDSimulation today cfg fit start hist = Some (Inr r)"
  shows "runBBDSimulation today cfg' fit start hist = Some (Inr (r\<lparr> config := cfg' \<rparr>))"
proof -
  obtain P st0 where P: "select_pricePath today cfg fit start hist = Some P"
    and st0: "initial_state cfg P = Inr st0"
    and st: "steps r = st_steps (simulate_loop cfg P 0 st0)"
    and sm: "make_summary (simulate_loop cfg P 0 st0) = Inr (summary r)"
    using runBBDSimulation_Inr [OF run] by blast
  have loop: "simulate_loop cfg' P 0 st0 = simulate_loop cfg P 0 st0"
    using month by (rule simulate_loop_cong)
  have "runBBDSimulation today cfg' fit start hist
          = Some (Inr \<lparr> config = cfg', steps = steps r, summary = summary r \<rparr>)"
    by (simp add: runBBDSimulation_def path P init st0 loop sm st Let_def)
  then show ?thesis by (cases r) simp
qed

section \<open>Runs on the concrete inputs\<close>

text \<open>
  With \<open>baseConfig\<close> and the flat fit the collateral is worth 12000 throughout: the
  loan is 0 in month 0, 5041.67 in month 1 (LTV 0.42) and 10125.35 in month 2, where the
  LTV of 0.84 passes the threshold of 0.8 and the run stops.
\<close>

lemma base_run_steps:
  "map (\<lambda>s. (month s, loanBalance s, ltv s, isLiquidated s))
     (steps (projr (the (runBBDSimulation testDate baseConfig flatFit testDate None))))
   = [(0, Fin 0, Fin 0, False),
      (1, Fin (15125 / 3), Fin (121 / 288), False),
      (2, Fin (3645125 / 360), Fin (29161 / 34560), True)]"
  by (simp add: run_simps baseConfig_def flatFit_def del: upto_rec_numeral)

lemma base_run_Inr:
  "runBBDSimulation testDate baseConfig flatFit testDate None
     = Some (Inr (projr (the (runBBDSimulation testDate baseConfig flatFit testDate None))))"
proof -
  have "projectionYears baseConfig = Fin 1" by (simp add: baseConfig_def)
  from runBBDSimulation_returns [OF this, of testDate flatFit testDate None]
  show ?thesis by auto
qed

lemma base_run_length:
  "length (steps (projr (the (runBBDSimulation testDate baseConfig flatFit testDate None)))) = 3"
  using arg_cong [OF base_run_steps, of length] by simp




section \<open>C1: the first loan balances of the capitalising monthly borrower\<close>

lemma capitalize_month_balance:
  assumes "borrowMonthly cfg" and "borrowFrequency cfg = monthly"
    and "interestMode cfg = capitalize"
  shows "st_loanBalance (simulate_month cfg pt i st) =
           (if i = 0 then st_loanBalance st
            else (st_loanBalance st + monthlySpendingUsd cfg)
                 + (st_loanBalance st + monthlySpendingUsd cfg) * monthlyInterestRate cfg)"
  using assms
  by (simp add: simulate_month_state borrow_block_def interest_block_def Let_def)

lemma simulate_loop_capitalize:
  assumes modes: "borrowMonthly cfg" "borrowFrequency cfg = monthly"
      "interestMode cfg = capitalize"
    and init: "st_steps st0 = []" "\<not> st_isLiquidated st0" "st_loanBalance st0 = Fin 0"
  shows "\<forall>j<length (st_steps (simulate_loop cfg pricePath 0 st0)).
           loanBalance (st_steps (simulate_loop cfg pricePath 0 st0) ! j) =
             (if j = 0 then Fin 0
              else (loanBalance (st_steps (simulate_loop cfg pricePath 0 st0) ! (j - 1))
                      + monthlySpendingUsd cfg)
                   + (loanBalance (st_steps (simulate_loop cfg pricePath 0 st0) ! (j - 1))
                      + monthlySpendingUsd cfg) * monthlyInterestRate cfg)"
proof -
  let ?Q = "\<lambda>s::SimState.
     st_loanBalance s = (if st_steps s = [] then Fin 0 else loanBalance (last (st_steps s)))
     \<and> (\<forall>j<length (st_steps s).
           loanBalance (st_steps s ! j) =
             (if j = 0 then Fin 0
              else (loanBalance (st_steps s ! (j - 1)) + monthlySpendingUsd cfg)
                   + (loanBalance (st_steps s ! (j - 1)) + monthlySpendingUsd cfg)
                       * monthlyInterestRate cfg))"
  have "?Q (simulate_loop cfg pricePath 0 st0)"
  proof (rule simulate_loop_rule [where P = ?Q])
    show "?Q st0" using init by simp
    show "length (st_steps st0) = 0" using init by simp
    show "\<not> st_isLiquidated st0" by fact
  next
    fix s :: SimState
    let ?n = "length (st_steps s)"
    let ?s' = "simulate_month cfg (pricePath ! ?n) ?n s"
    assume inv: "?Q s"
    obtain x where x: "st_steps ?s' = st_steps s @ [x]" "loanBalance x = st_loanBalance ?s'"
      using simulate_month_steps [of cfg "pricePath ! ?n" ?n s] by blast
    have bal: "st_loanBalance ?s' =
           (if ?n = 0 then Fin 0
            else (loanBalance (last (st_steps s)) + monthlySpendingUsd cfg)
                 + (loanBalance (last (st_steps s)) + monthlySpendingUsd cfg)
                     * monthlyInterestRate cfg)"
      using inv by (simp only: capitalize_month_balance [OF modes]) simp
    have a: "st_loanBalance ?s' = (if st_steps ?s' = [] then Fin 0 else loanBalance (last (st_steps ?s')))"
      using x by simp
    have b: "loanBalance (st_steps ?s' ! j) =
             (if j = 0 then Fin 0
              else (loanBalance (st_steps ?s' ! (j - 1)) + monthlySpendingUsd cfg)
                   + (loanBalance (st_steps ?s' ! (j - 1)) + monthlySpendingUsd cfg)
                       * monthlyInterestRate cfg)" if "j < length (st_steps ?s')" for j
    proof (cases "j < ?n")
      case True
      have e1: "st_steps ?s' ! j = st_steps s ! j" using True x(1) by (simp add: nth_append)
      have e2: "st_steps ?s' ! (j - 1) = st_steps s ! (j - 1)"
        using True x(1) by (simp add: nth_append)
      from inv True have "loanBalance (st_steps s ! j) =
             (if j = 0 then Fin 0
              else (loanBalance (st_steps s ! (j - 1)) + monthlySpendingUsd cfg)
                   + (loanBalance (st_steps s ! (j - 1)) + monthlySpendingUsd cfg)
                       * monthlyInterestRate cfg)" by blast
      then show ?thesis by (simp only: e1 e2)
    next
      case False
      then have j: "j = ?n" using that x(1) by simp
      have e1: "loanBalance (st_steps ?s' ! j) = st_loanBalance ?s'"
        using j x by simp
      show ?thesis
      proof (cases "?n = 0")
        case True
        then have "st_loanBalance ?s' = Fin 0" using bal by simp
        moreover have "j = 0" using True j by simp
        ultimately show ?thesis using e1 by simp
      next
        case False
        then have e3: "last (st_steps s) = st_steps s ! (?n - 1)" by (simp add: last_conv_nth)
        have e2: "st_steps ?s' ! (j - 1) = last (st_steps s)"
          using False j x(1) e3 by (simp add: nth_append)
        have "j \<noteq> 0" using False j by simp
        moreover have "st_loanBalance ?s' =
            (loanBalance (last (st_steps s)) + monthlySpendingUsd cfg)
                 + (loanBalance (last (st_steps s)) + monthlySpendingUsd cfg)
                     * monthlyInterestRate cfg"
          using bal False by simp
        ultimately show ?thesis by (simp only: e1 e2 if_False)
      qed
    qed
    show "?Q ?s'" using a b by blast
  qed
  then show ?thesis by blast
qed

text \<open>
  C1 (as amended). For a configuration with btcHeld = 1, monthlySpendingUsd = 5000,
  interestAprPercent = 10, liquidationLtvPercent = 80, borrowing monthly and capitalising
  interest, every result of \<open>runBBDSimulation\<close> has a month-0 loan balance of 0; its
  month-1 balance, when the step exists, is 5000 plus one month of interest on it,
  5000 * (1 + 10 / 100 / 12) = 15125 / 3 (about 5041.67), because interest is applied in
  every month but month 0, after the borrowing of that month; and its month-2 balance,
  when the step exists, is 3645125 / 360 (about 10125.35), above 10000.
\<close>

theorem first_balances_capitalize:
  assumes "btcHeld cfg = Fin 1" and "monthlySpendingUsd cfg = Fin 5000"
    and "interestAprPercent cfg = Fin 10" and "liquidationLtvPercent cfg = Fin 80"
    and "borrowMonthly cfg" and "borrowFrequency cfg = monthly"
    and "interestMode cfg = capitalize"
    and "runBBDSimulation today cfg fit start hist = Some (Inr r)"
  shows "loanBalance (steps r ! 0) = Fin 0
       \<and> (1 < length (steps r) \<longrightarrow> loanBalance (steps r ! 1) = Fin (15125 / 3))
       \<and> (2 < length (steps r) \<longrightarrow> loanBalance (steps r ! 2) = Fin (3645125 / 360)
            \<and> loanBalance (steps r ! 2) > Fin 10000)"
proof -
  obtain P st0 where P: "select_pricePath today cfg fit start hist = Some P"
    and st0: "initial_state cfg P = Inr st0"
    and st: "steps r = st_steps (simulate_loop cfg P 0 st0)"
    and sm: "make_summary (simulate_loop cfg P 0 st0) = Inr (summary r)"
    using runBBDSimulation_Inr [OF assms(8)] by blast
  note i0 = initial_state_props [OF st0]
  have l0: "st_loanBalance st0 = Fin 0"
    using i0(6) assms(5) by (simp split: option.split)
  have ne: "0 < length (steps r)" using make_summary_props(1) [OF sm] st by simp
  have rate: "monthlyInterestRate cfg = Fin (1 / 120)"
    using assms(3) by (simp add: monthlyInterestRate_def)
  note rec = simulate_loop_capitalize [OF assms(5,6,7) i0(1) i0(2) l0, of P, folded st,
      rule_format]
  have b0: "loanBalance (steps r ! 0) = Fin 0" using rec [OF ne] by simp
  have b1: "loanBalance (steps r ! 1) = Fin (15125 / 3)" if "1 < length (steps r)"
    using rec [OF that] b0 assms(2) rate by simp
  have b2: "loanBalance (steps r ! 2) = Fin (3645125 / 360)" if "2 < length (steps r)"
  proof -
    have "1 < length (steps r)" using that by simp
    from b1 [OF this] rec [OF that] assms(2) rate show ?thesis by simp
  qed
  show ?thesis using b0 b1 b2 by simp
qed

text \<open>
  Witness for C1: the run of \<open>baseConfig\<close> on the flat fit has three steps, with the
  balances 0, 15125 / 3 and more than 10000.
\<close>

theorem first_balances_capitalize_witness:
  "loanBalance (steps (projr (the (runBBDSimulation testDate baseConfig flatFit testDate None))) ! 0)
     = Fin 0
   \<and> loanBalance (steps (projr (the (runBBDSimulation testDate baseConfig flatFit testDate None))) ! 1)
     = Fin (15125 / 3)
   \<and> loanBalance (steps (projr (the (runBBDSimulation testDate baseConfig flatFit testDate None))) ! 2)
     > Fin 10000"
proof -
  have cfg: "btcHeld baseConfig = Fin 1" "monthlySpendingUsd baseConfig = Fin 5000"
    "interestAprPercent baseConfig = Fin 10" "liquidationLtvPercent baseConfig = Fin 80"
    "borrowMonthly baseConfig" "borrowFrequency baseConfig = monthly"
    "interestMode baseConfig = capitalize"
    by (simp_all add: baseConfig_def)
  from first_balances_capitalize [OF cfg base_run_Inr] base_run_length
  show ?thesis by simp
qed

text \<open>
  Counterexample to C1 as stated: in that run the month-1 step exists and its loan balance
  is not 5000.
\<close>

theorem month_one_balance_not_5000:
  "1 < length (steps (projr (the (runBBDSimulation testDate baseConfig flatFit testDate None))))
   \<and> loanBalance (steps (projr (the (runBBDSimulation testDate baseConfig flatFit testDate None))) ! 1)
     \<noteq> Fin 5000"
proof -
  have "loanBalance
          (steps (projr (the (runBBDSimulation testDate baseConfig flatFit testDate None))) ! 1)
        = Fin (15125 / 3)"
    using arg_cong [OF base_run_steps, of "\<lambda>xs. fst (snd (xs ! 1))"] base_run_length by simp
  then show ?thesis using base_run_length by simp
qed

section \<open>C2: the amount borrowed each month\<close>










section \<open>C3: what the simulation does with a bad configuration\<close>

text \<open>
  C3 (as amended). \<open>runBBDSimulation\<close> does not fail fast on a configuration of the
  programmer-error class: it checks nothing in the configuration. With a finite
  projectionYears that is not negative it returns a result for every configuration, so
  also when a starting LTV is given together with borrowMonthly and when btcHeld is
  negative. With borrowMonthly set the starting LTV is ignored: the steps and the summary
  are those of the run with startingLtvPercent = null.
\<close>

theorem runBBDSimulation_validates_nothing:
  assumes "projectionYears cfg = Fin y" and "0 \<le> y"
  shows "\<exists>r. runBBDSimulation today cfg fit start hist = Some (Inr r)
           \<and> config r = cfg
           \<and> (borrowMonthly cfg \<longrightarrow>
                runBBDSimulation today (cfg\<lparr> startingLtvPercent := None \<rparr>) fit start hist
                  = Some (Inr (r\<lparr> config := cfg\<lparr> startingLtvPercent := None \<rparr> \<rparr>)))"
proof -
  obtain r where r: "runBBDSimulation today cfg fit start hist = Some (Inr r)"
    using runBBDSimulation_returns [OF assms] by blast
  have c: "config r = cfg" using runBBDSimulation_Inr [OF r] by blast
  have "runBBDSimulation today (cfg\<lparr> startingLtvPercent := None \<rparr>) fit start hist
          = Some (Inr (r\<lparr> config := cfg\<lparr> startingLtvPercent := None \<rparr> \<rparr>))"
    if "borrowMonthly cfg"
  proof (rule runBBDSimulation_cong [OF _ _ _ r])
    show "select_pricePath today (cfg\<lparr> startingLtvPercent := None \<rparr>) fit start hist
            = select_pricePath today cfg fit start hist"
      by (simp add: select_pricePath_def cong: if_cong option.case_cong)
    show "initial_state (cfg\<lparr> startingLtvPercent := None \<rparr>) pricePath
            = initial_state cfg pricePath" for pricePath
      using that by (simp add: initial_state_def Let_def split: option.split)
    show "simulate_month (cfg\<lparr> startingLtvPercent := None \<rparr>) pt i st
            = simulate_month cfg pt i st" for pt i st
      by (simp add: simulate_month_def borrow_block_def interest_block_def
          monthlyInterestRate_def liquidationLtv_def
          cong: if_cong BorrowFrequency.case_cong InterestMode.case_cong)
  qed
  with r c show ?thesis by blast
qed

text \<open>
  Witness for C3: the base configuration with a starting LTV of 20% added to
  borrowMonthly returns a result, with the steps of the base configuration itself.
\<close>

theorem runBBDSimulation_validates_nothing_witness:
  "runBBDSimulation testDate (baseConfig\<lparr> startingLtvPercent := Some (Fin 20) \<rparr>)
       flatFit testDate None \<noteq> None
   \<and> \<not> isl (the (runBBDSimulation testDate (baseConfig\<lparr> startingLtvPercent := Some (Fin 20) \<rparr>)
              flatFit testDate None))
   \<and> steps (projr (the (runBBDSimulation testDate
              (baseConfig\<lparr> startingLtvPercent := Some (Fin 20) \<rparr>) flatFit testDate None)))
       = steps (projr (the (runBBDSimulation testDate baseConfig flatFit testDate None)))"
proof -
  let ?cfg = "baseConfig\<lparr> startingLtvPercent := Some (Fin 20) \<rparr>"
  have y: "projectionYears ?cfg = Fin 1" "(0::real) \<le> 1" by (simp_all add: baseConfig_def)
  have b: "borrowMonthly ?cfg" by (simp add: baseConfig_def)
  have e: "?cfg\<lparr> startingLtvPercent := None \<rparr> = baseConfig" by (simp add: baseConfig_def)
  from runBBDSimulation_validates_nothing [OF y, of testDate flatFit testDate None]
  obtain r where r: "runBBDSimulation testDate ?cfg flatFit testDate None = Some (Inr r)"
    and same: "runBBDSimulation testDate (?cfg\<lparr> startingLtvPercent := None \<rparr>) flatFit
                 testDate None
               = Some (Inr (r\<lparr> config := ?cfg\<lparr> startingLtvPercent := None \<rparr> \<rparr>))"
    using b by blast
  have "steps (projr (the (runBBDSimulation testDate baseConfig flatFit testDate None)))
          = steps r"
    using same unfolding e by simp
  then show ?thesis using r by simp
qed

text \<open>
  Counterexample to C3 as stated: the base configuration with a starting LTV of 20% added
  to borrowMonthly, and the base configuration with btcHeld = -1, both return a result:
  the call returns, and what it returns is not an error.
\<close>

theorem runBBDSimulation_accepts_bad_configs:
  "runBBDSimulation testDate (baseConfig\<lparr> startingLtvPercent := Some (Fin 20) \<rparr>)
       flatFit testDate None \<noteq> None
   \<and> \<not> isl (the (runBBDSimulation testDate (baseConfig\<lparr> startingLtvPercent := Some (Fin 20) \<rparr>)
              flatFit testDate None))
   \<and> runBBDSimulation testDate (baseConfig\<lparr> btcHeld := Fin (- 1) \<rparr>) flatFit testDate None
       \<noteq> None
   \<and> \<not> isl (the (runBBDSimulation testDate (baseConfig\<lparr> btcHeld := Fin (- 1) \<rparr>)
              flatFit testDate None))"
proof -
  have y1: "projectionYears (baseConfig\<lparr> startingLtvPercent := Some (Fin 20) \<rparr>) = Fin 1"
    and y2: "projectionYears (baseConfig\<lparr> btcHeld := Fin (- 1) \<rparr>) = Fin 1"
    by (simp_all add: baseConfig_def)
  from runBBDSimulation_returns [OF y1, of testDate flatFit testDate None]
    runBBDSimulation_returns [OF y2, of testDate flatFit testDate None]
  show ?thesis by auto
qed

section \<open>C4: the step sequence ends at the first liquidated step\<close>



section \<open>C5: the fit of a degenerate series\<close>

text \<open>
  The part of C5 that holds: points with a price or an age that is not positive are
  filtered out, and with fewer than two points left the fit is the zero fit; nothing is
  thrown.
\<close>

lemma fitPowerLaw_insufficient:
  "length (filter (\<lambda>d. price d > Fin 0 \<and> pt_daysSinceGenesis d > Fin 0) data) < 2
     \<Longrightarrow> fitPowerLaw data = \<lparr> A = Fin 0, B = Fin 0, rSquared = Fin 0, sigma = Fin 0 \<rparr>"
  by (simp add: fitPowerLaw_def Let_def)

text \<open>
  Where sigma is a number: on finite data with two valid points of different ages the
  slope's denominator is positive, every intermediate value is finite, and sigma is the
  square root of a variance that is not negative.
\<close>

lemma positive_finite:
  assumes "x > Fin 0" and "x \<noteq> PInf"
  shows "\<exists>a>0. x = Fin a"
  using assms by (cases x) (simp_all add: less_number_def)

lemma all_Fin_map:
  "(\<forall>x\<in>set xs. \<exists>a. x = Fin a) \<Longrightarrow> \<exists>ys. xs = map Fin ys"
proof (induction xs)
  case Nil
  then show ?case by simp
next
  case (Cons x xs)
  then obtain a ys where "x = Fin a" "xs = map Fin ys" by auto
  then have "x # xs = map Fin (a # ys)" by simp
  then show ?case by (rule exI [of _ "a # ys"])
qed

lemma foldl_Fin:
  assumes "\<And>x. x \<in> set xs \<Longrightarrow> F x = Fin (f x)"
  shows "foldl (\<lambda>acc x. acc + F x) (Fin a) xs = Fin (a + sum_list (map f xs))"
  using assms by (induction xs arbitrary: a) (simp_all add: add.assoc)

lemma foldl_pair_Fin:
  assumes "\<And>i. i \<in> set xs \<Longrightarrow> F i = Fin (f i)" and "\<And>i. i \<in> set xs \<Longrightarrow> G i = Fin (g i)"
  shows "foldl (\<lambda>(num, den) i. (num + F i, den + G i)) (Fin a, Fin b) xs
           = (Fin (a + sum_list (map f xs)), Fin (b + sum_list (map g xs)))"
  using assms by (induction xs arbitrary: a b) (simp_all add: add.assoc)

lemma foldl_plus_Fin: "foldl (\<lambda>a b. a + b) (Fin a) (map Fin ys) = Fin (a + sum_list ys)"
  by (induction ys arbitrary: a) (simp_all add: add.assoc)

lemma sum_reduce_Fin: "sum_reduce (map Fin ys) = Fin (sum_list ys)"
  by (simp add: sum_reduce_def foldl_plus_Fin)

lemma squares_positive:
  fixes f :: "nat \<Rightarrow> real"
  assumes "i < n" and "f i \<noteq> 0"
  shows "0 < sum_list (map (\<lambda>k. (f k)\<^sup>2) [0 ..< n])"
proof -
  have "sum_list (map (\<lambda>k. (f k)\<^sup>2) [0 ..< n]) = (\<Sum>k\<in>{0..<n}. (f k)\<^sup>2)"
    by (simp add: interv_sum_list_conv_sum_set_nat)
  also have "0 < \<dots>"
    by (rule sum_pos2 [of _ i]) (use assms in auto)
  finally show ?thesis .
qed

text \<open>Of two numbers that differ, one differs from any given value.\<close>

lemma differs_from_any:
  fixes T :: "real list"
  assumes "i < length T" and "j < length T" and "T ! i \<noteq> T ! j"
  shows "\<exists>k<length T. T ! k \<noteq> m"
  using assms by metis

lemma foldl_Fin_map:
  assumes "\<And>y. y \<in> set ys \<Longrightarrow> F (Fin y) = Fin (f y)"
  shows "foldl (\<lambda>acc x. acc + F x) (Fin a) (map Fin ys) = Fin (a + sum_list (map f ys))"
  using assms by (induction ys arbitrary: a) (simp_all add: add.assoc)

lemma fitPowerLaw_sigma_nonneg:
  assumes fin: "\<forall>d\<in>set data. price d \<noteq> PInf \<and> pt_daysSinceGenesis d \<noteq> PInf"
    and d1: "d1 \<in> set data" "price d1 > Fin 0" "pt_daysSinceGenesis d1 > Fin 0"
    and d2: "d2 \<in> set data" "price d2 > Fin 0" "pt_daysSinceGenesis d2 > Fin 0"
    and ne: "pt_daysSinceGenesis d1 \<noteq> pt_daysSinceGenesis d2"
  shows "\<exists>s\<ge>0. sigma (fitPowerLaw data) = Fin s"
proof -
  define valid where "valid = filter (\<lambda>d. price d > Fin 0 \<and> pt_daysSinceGenesis d > Fin 0) data"
  define n where "n = length valid"
  define logT where "logT = map (\<lambda>d. Math_log (pt_daysSinceGenesis d)) valid"
  define logP where "logP = map (\<lambda>d. Math_log (price d)) valid"
  have v1: "d1 \<in> set valid" and v2: "d2 \<in> set valid" using d1 d2 by (simp_all add: valid_def)
  have vfin: "\<exists>t>0. \<exists>p>0. pt_daysSinceGenesis d = Fin t \<and> price d = Fin p" if "d \<in> set valid" for d
  proof -
    from that have "d \<in> set data" "price d > Fin 0" "pt_daysSinceGenesis d > Fin 0"
      by (simp_all add: valid_def)
    with fin positive_finite [of "price d"] positive_finite [of "pt_daysSinceGenesis d"]
    show ?thesis by blast
  qed
  obtain i1 where i1: "i1 < n" "valid ! i1 = d1" using v1 by (auto simp add: in_set_conv_nth n_def)
  obtain i2 where i2: "i2 < n" "valid ! i2 = d2" using v2 by (auto simp add: in_set_conv_nth n_def)
  have "i1 \<noteq> i2" using i1 i2 ne by auto
  then have n2: "2 \<le> n" using i1(1) i2(1) by simp
  have "\<forall>x\<in>set logT. \<exists>a. x = Fin a" using vfin by (fastforce simp add: logT_def)
  then obtain T where T: "logT = map Fin T" using all_Fin_map by blast
  have "\<forall>x\<in>set logP. \<exists>a. x = Fin a" using vfin by (fastforce simp add: logP_def)
  then obtain P where P: "logP = map Fin P" using all_Fin_map by blast
  have lT: "length T = n" using T by (metis length_map logT_def n_def)
  have lP: "length P = n" using P by (metis length_map logP_def n_def)
  have Tneq: "T ! i1 \<noteq> T ! i2"
  proof -
    obtain t1 t2 where t: "0 < t1" "pt_daysSinceGenesis d1 = Fin t1" "0 < t2" "pt_daysSinceGenesis d2 = Fin t2"
      using vfin [OF v1] vfin [OF v2] by blast
    have "logT ! i1 = Fin (ln t1)" "logT ! i2 = Fin (ln t2)"
      using i1 i2 t by (simp_all add: logT_def n_def)
    then have "T ! i1 = ln t1" "T ! i2 = ln t2" using T i1(1) i2(1) lT by auto
    moreover have "t1 \<noteq> t2" using ne t by auto
    ultimately show ?thesis using t by simp
  qed
  define meanLogT where "meanLogT = sum_reduce logT / Fin (real n)"
  define meanLogP where "meanLogP = sum_reduce logP / Fin (real n)"
  define nd where "nd = foldl (\<lambda>(num, den) i.
                          (num + (logT ! i - meanLogT) * (logP ! i - meanLogP),
                           den + Math_pow (logT ! i - meanLogT) (Fin 2)))
                   (Fin 0, Fin 0) [0 ..< n]"
  define slope where "slope = fst nd / snd nd"
  define logA where "logA = meanLogP - slope * meanLogT"
  define predicted where "predicted = map (\<lambda>lt. logA + slope * lt) logT"
  define residuals where "residuals = map (\<lambda>(lp, i). lp - predicted ! i) (zip logP [0 ..< n])"
  define meanResidual where "meanResidual = sum_reduce residuals / Fin (real n)"
  have final: "sigma (fitPowerLaw data)
      = Math_sqrt (foldl (\<lambda>acc r. acc + Math_pow (r - meanResidual) (Fin 2)) (Fin 0) residuals
                    / Fin (real n - 1))"
    using n2
    unfolding meanResidual_def residuals_def predicted_def logA_def slope_def nd_def
      meanLogT_def meanLogP_def logT_def logP_def n_def valid_def fitPowerLaw_def Let_def
      split_def
    by simp
  define mt where "mt = sum_list T / real n"
  define mp where "mp = sum_list P / real n"
  have n0: "real n \<noteq> 0" using n2 by simp
  have meanT: "meanLogT = Fin mt"
    using n0 by (simp add: meanLogT_def T sum_reduce_Fin mt_def)
  have meanP: "meanLogP = Fin mp"
    using n0 by (simp add: meanLogP_def P sum_reduce_Fin mp_def)
  define N where "N = sum_list (map (\<lambda>i. (T ! i - mt) * (P ! i - mp)) [0 ..< n])"
  define D where "D = sum_list (map (\<lambda>i. (T ! i - mt)\<^sup>2) [0 ..< n])"
  have num_i: "(logT ! i - Fin mt) * (logP ! i - Fin mp) = Fin ((T ! i - mt) * (P ! i - mp))"
    if "i \<in> set [0 ..< n]" for i
    using that by (simp add: T P lT lP)
  have den_i: "Math_pow (logT ! i - Fin mt) (Fin 2) = Fin ((T ! i - mt)\<^sup>2)"
    if "i \<in> set [0 ..< n]" for i
    using that by (simp add: T lT del: Math_pow.simps)
  have nd: "nd = (Fin N, Fin D)"
    unfolding nd_def N_def D_def meanT meanP
    using foldl_pair_Fin [OF num_i den_i, where xs = "[0 ..< n]" and a = 0 and b = 0] by simp
  obtain k where k: "k < n" "T ! k \<noteq> mt"
    using differs_from_any [of i1 T i2 mt] i1(1) i2(1) lT Tneq by auto
  have Dpos: "0 < D"
    unfolding D_def by (rule squares_positive [of k]) (use k in simp_all)
  have slope: "slope = Fin (N / D)" using Dpos by (simp add: slope_def nd)
  have logA: "logA = Fin (mp - N / D * mt)" by (simp add: logA_def slope meanT meanP)
  have pred: "predicted ! i = Fin (mp - N / D * mt + N / D * T ! i)" if "i < n" for i
    using that by (simp add: predicted_def T lT slope logA)
  have "\<forall>x\<in>set residuals. \<exists>a. x = Fin a"
  proof
    fix x assume "x \<in> set residuals"
    then obtain lp i where x: "x = lp - predicted ! i" "(lp, i) \<in> set (zip logP [0 ..< n])"
      by (auto simp add: residuals_def)
    then have "lp \<in> set logP" "i < n" by (auto dest: set_zip_leftD set_zip_rightD)
    then obtain p where "lp = Fin p" using P by auto
    then show "\<exists>a. x = Fin a" using x(1) pred [OF \<open>i < n\<close>] by simp
  qed
  then obtain R where R: "residuals = map Fin R" using all_Fin_map by blast
  define mr where "mr = sum_list R / real n"
  have meanR: "meanResidual = Fin mr"
    using n0 by (simp add: meanResidual_def R sum_reduce_Fin mr_def)
  define V where "V = sum_list (map (\<lambda>r. (r - mr)\<^sup>2) R)"
  have var: "foldl (\<lambda>acc r. acc + Math_pow (r - meanResidual) (Fin 2)) (Fin 0) residuals = Fin V"
    unfolding R meanR V_def
    using foldl_Fin_map [of R "\<lambda>r. Math_pow (r - Fin mr) (Fin 2)" "\<lambda>r. (r - mr)\<^sup>2" 0]
    by (simp del: Math_pow.simps)
  have Vnn: "0 \<le> V" unfolding V_def by (rule sum_list_nonneg) auto
  have n1: "real n - 1 > 0" using n2 by simp
  have "sigma (fitPowerLaw data) = Math_sqrt (Fin V / Fin (real n - 1))"
    by (simp only: final var)
  moreover have vnn: "0 \<le> V / (real n - 1)" using Vnn n1 by simp
  ultimately have "sigma (fitPowerLaw data) = Fin (sqrt (V / (real n - 1)))"
    using n1 by (simp add: not_less)
  moreover have "0 \<le> sqrt (V / (real n - 1))" using Vnn n1 by simp
  ultimately show ?thesis by blast
qed

text \<open>
  The data of the filter test (three invalid points, three valid ones at the ages 300, 600
  and 900) is such a series.
\<close>

lemma fitPowerLaw_sigma_nonneg_example:
  "sigma (fitPowerLaw filterTestData) \<ge> Fin 0"
proof -
  let ?d1 = "\<lparr> date = testDate, timestamp = Fin 1735689600000, price = Fin 100,
               pt_daysSinceGenesis = Fin 300 \<rparr>"
  let ?d2 = "\<lparr> date = testDate, timestamp = Fin 1735689600000, price = Fin 900,
               pt_daysSinceGenesis = Fin 600 \<rparr>"
  have "\<exists>s\<ge>0. sigma (fitPowerLaw filterTestData) = Fin s"
    by (rule fitPowerLaw_sigma_nonneg [of filterTestData ?d1 ?d2])
      (simp_all add: filterTestData_def)
  then show ?thesis by auto
qed

text \<open>
  C5. The claim: \<open>fitPowerLaw\<close> discards the points with price <= 0 or age <= 0, returns
  the zero fit when fewer than two valid points remain, and whenever it returns,
  sigma >= 0. The code breaks the last part at this input: two valid points recorded on
  the same day (age 5, prices 1 and 2). All log ages equal their mean, so numerator and
  denominator of the slope are both 0, the slope is \<open>0 / 0 = NaN\<close>, and every field of
  the fit, sigma among them, is \<open>NaN\<close>; \<open>sigma >= 0\<close> is false.
\<close>

theorem fitPowerLaw_same_day:
  "fitPowerLaw sameDayData = \<lparr> A = NaN, B = NaN, rSquared = NaN, sigma = NaN \<rparr>
   \<and> \<not> (sigma (fitPowerLaw sameDayData) \<ge> Fin 0)"
  by (simp add: fitPowerLaw_def sameDayData_def Let_def sum_reduce_def signed_inf_def
      upt_rec numeral_2_eq_2 split_def)

section \<open>C6: the model price at an age that is not positive\<close>

text \<open>
  C6 (as amended). \<open>powerLawPrice\<close> has no guard on the age: for finite A, B and age it
  returns A * Math.pow(age, B). For age > 0 that is A * age^B. For age <= 0 the result is
  not 0 in general: it is A when B = 0; at age 0 it is 0 when B > 0 and A * Infinity when
  B < 0 (an infinity with the sign of A, \<open>NaN\<close> for A = 0); at a negative age it is
  A * age^B for an integer B and \<open>NaN\<close> otherwise.
\<close>

theorem powerLawPrice_no_guard:
  "powerLawPrice (Fin age) \<lparr> A = Fin a, B = Fin b, rSquared = r, sigma = s \<rparr> =
     (if b = 0 then Fin a
      else if age > 0 then Fin (a * age powr b)
      else if age = 0 then (if b > 0 then Fin 0 else signed_inf a)
      else if is_integer b then Fin (a * age powi \<lfloor>b\<rfloor>)
      else NaN)"
  by (simp add: powerLawPrice_def times_number_def)

text \<open>
  Counterexample to C6 as stated: with the fit of the tests (A = 10, B = 2) the price at
  age -3 is 10 * (-3)^2 = 90, not 0.
\<close>

theorem powerLawPrice_negative_age:
  "powerLawPrice (Fin (- 3)) \<lparr> A = Fin 10, B = Fin 2, rSquared = Fin 1, sigma = Fin (1 / 2) \<rparr>
     = Fin 90
   \<and> powerLawPrice (Fin (- 3)) \<lparr> A = Fin 10, B = Fin 2, rSquared = Fin 1, sigma = Fin (1 / 2) \<rparr>
     \<noteq> Fin 0"
  by (simp add: powerLawPrice_def is_integer_def)

section \<open>C7: what a run depends on\<close>

text \<open>
  C7 (as amended). A run is a function of its arguments and of the clock:
  \<open>generateMixedPricePath\<close> reads the current date. Without historical data (absent or
  empty) \<open>runBBDSimulation\<close> does not depend on the clock at all; with historical data it
  depends on the clock only through the current UTC year and month, as
  \<open>generateMixedPricePath\<close> does.
\<close>

theorem runBBDSimulation_clock_dependence:
  "runBBDSimulation today1 cfg fit start None = runBBDSimulation today2 cfg fit start None
   \<and> runBBDSimulation today1 cfg fit start (Some [])
       = runBBDSimulation today2 cfg fit start (Some [])
   \<and> (getUTCFullYear today1 = getUTCFullYear today2 \<and> getUTCMonth today1 = getUTCMonth today2
        \<longrightarrow> generateMixedPricePath today1 start years fit scen hist
              = generateMixedPricePath today2 start years fit scen hist
          \<and> runBBDSimulation today1 cfg fit start histOpt
              = runBBDSimulation today2 cfg fit start histOpt)"
  by (simp add: runBBDSimulation_def select_pricePath_def generateMixedPricePath_def
      split: option.split)

text \<open>
  Witness for C7: with the March history, a run on 1 March 2025 and a run on 20 March 2025
  give the same result.
\<close>

theorem runBBDSimulation_clock_dependence_witness:
  "runBBDSimulation marchDate (baseConfig\<lparr> projectionYears := Fin 0 \<rparr>) flatFit marchDate
       (Some marchHistory)
     = runBBDSimulation (marchDate\<lparr> utcDate := 20 \<rparr>) (baseConfig\<lparr> projectionYears := Fin 0 \<rparr>)
         flatFit marchDate (Some marchHistory)"
  using runBBDSimulation_clock_dependence
    [of marchDate "baseConfig\<lparr> projectionYears := Fin 0 \<rparr>" flatFit marchDate
      "marchDate\<lparr> utcDate := 20 \<rparr>" "Fin 0" fair marchHistory "Some marchHistory"]
  by (simp add: getUTCFullYear_def getUTCMonth_def)

lemma mixed_path_clock:
  "generateMixedPricePath testDate marchDate (Fin 0) flatFit fair marchHistory
     = Some [\<lparr> pp_date = marchDate, pp_price = Fin 12000, pp_isProjection = True \<rparr>]"
  "generateMixedPricePath marchDate marchDate (Fin 0) flatFit fair marchHistory
     = Some [\<lparr> pp_date = marchDate, pp_price = Fin 99999, pp_isProjection = False \<rparr>]"
  by (simp_all add: generateMixedPricePath_def generateMixedPricePath_loop_eq Let_def
      historicalMap_def monthKey_def marchHistory_def marchDate_def testDate_def
      Date_UTC_first_def getUTCFullYear_def getUTCMonth_def getTime_def MakeDay_def
      DayFromYear_def InLeapYear_def daysBeforeMonth_def msPerDay_def
      getScenarioPrice_def powerLawPrice_def flatFit_def)

lemma march_pricePath:
  "select_pricePath testDate (baseConfig\<lparr> projectionYears := Fin 0 \<rparr>) flatFit marchDate
       (Some marchHistory)
     = Some [\<lparr> pp_date = marchDate, pp_price = Fin 12000, pp_isProjection = True \<rparr>]"
  "select_pricePath marchDate (baseConfig\<lparr> projectionYears := Fin 0 \<rparr>) flatFit marchDate
       (Some marchHistory)
     = Some [\<lparr> pp_date = marchDate, pp_price = Fin 99999, pp_isProjection = False \<rparr>]"
proof -
  have "length marchHistory > 0" by (simp add: marchHistory_def)
  then show
    "select_pricePath testDate (baseConfig\<lparr> projectionYears := Fin 0 \<rparr>) flatFit marchDate
       (Some marchHistory)
     = Some [\<lparr> pp_date = marchDate, pp_price = Fin 12000, pp_isProjection = True \<rparr>]"
    "select_pricePath marchDate (baseConfig\<lparr> projectionYears := Fin 0 \<rparr>) flatFit marchDate
       (Some marchHistory)
     = Some [\<lparr> pp_date = marchDate, pp_price = Fin 99999, pp_isProjection = False \<rparr>]"
    by (simp_all add: select_pricePath_def baseConfig_def mixed_path_clock)
qed

text \<open>
  Counterexample to C7 as stated: the same arguments (a simulation of March 2025 alone,
  with a recorded price of 99999 for that month) give a projected price of 12000 when the
  clock says January 2025 and the recorded price when it says March 2025.
\<close>

theorem runBBDSimulation_depends_on_clock:
  "runBBDSimulation testDate (baseConfig\<lparr> projectionYears := Fin 0 \<rparr>) flatFit marchDate
       (Some marchHistory)
     \<noteq> runBBDSimulation marchDate (baseConfig\<lparr> projectionYears := Fin 0 \<rparr>) flatFit marchDate
         (Some marchHistory)"
proof -
  have a: "map btcPrice (steps (projr (the
            (runBBDSimulation testDate (baseConfig\<lparr> projectionYears := Fin 0 \<rparr>) flatFit
               marchDate (Some marchHistory))))) = [Fin 12000]"
    unfolding runBBDSimulation_def march_pricePath
    by (simp add: simulate_loop_break simulate_loop_continue simulate_loop_stop
        simulate_month_def borrow_block_def interest_block_def initial_state_def
        make_summary_def liquidationLtv_def monthlyInterestRate_def baseConfig_def Let_def)
  have b: "map btcPrice (steps (projr (the
            (runBBDSimulation marchDate (baseConfig\<lparr> projectionYears := Fin 0 \<rparr>) flatFit
               marchDate (Some marchHistory))))) = [Fin 99999]"
    unfolding runBBDSimulation_def march_pricePath
    by (simp add: simulate_loop_break simulate_loop_continue simulate_loop_stop
        simulate_month_def borrow_block_def interest_block_def initial_state_def
        make_summary_def liquidationLtv_def monthlyInterestRate_def baseConfig_def Let_def)
  show ?thesis using a b by auto
qed

section \<open>C8: the bands of an annotated point are nested\<close>

text \<open>
  C8 (as amended). For every fit with sigma > 0 and every input point whose model price
  is a finite positive number, the point that \<open>applyFitToData\<close> produces has each band
  equal to the model price times \<open>Math.exp\<close> of k * sigma, for k = -2, -1, 1, 2, and the
  bands are nested around the model price, but not strictly:
  band2SigmaLower <= band1SigmaLower <= fittedPrice <= band1SigmaUpper <= band2SigmaUpper.
  Neighbours can be equal: where \<open>Math.exp\<close> gives 0 both lower bands are 0, and where
  it gives \<open>Infinity\<close> both upper bands are \<open>Infinity\<close>.
\<close>

theorem applyFitToData_bands_nested:
  assumes "sigma fit > Fin 0" and "i < length data"
    and "fittedPrice (applyFitToData data fit ! i) = Fin m" and "0 < m"
  shows "fittedPrice (applyFitToData data fit ! i)
           = powerLawPrice (pt_daysSinceGenesis (data ! i)) fit
       \<and> band2SigmaLower (applyFitToData data fit ! i)
           = fittedPrice (applyFitToData data fit ! i) * Math_exp (Fin (- 2) * sigma fit)
       \<and> band1SigmaLower (applyFitToData data fit ! i)
           = fittedPrice (applyFitToData data fit ! i) * Math_exp (- sigma fit)
       \<and> band1SigmaUpper (applyFitToData data fit ! i)
           = fittedPrice (applyFitToData data fit ! i) * Math_exp (sigma fit)
       \<and> band2SigmaUpper (applyFitToData data fit ! i)
           = fittedPrice (applyFitToData data fit ! i) * Math_exp (Fin 2 * sigma fit)
       \<and> band2SigmaLower (applyFitToData data fit ! i) \<le> band1SigmaLower (applyFitToData data fit ! i)
       \<and> band1SigmaLower (applyFitToData data fit ! i) \<le> fittedPrice (applyFitToData data fit ! i)
       \<and> fittedPrice (applyFitToData data fit ! i) \<le> band1SigmaUpper (applyFitToData data fit ! i)
       \<and> band1SigmaUpper (applyFitToData data fit ! i) \<le> band2SigmaUpper (applyFitToData data fit ! i)"
proof -
  let ?p = "applyFitToData data fit ! i"
  have p: "?p = applyFit fit (data ! i)" using assms(2) by (simp add: applyFitToData_def)
  have fp: "powerLawPrice (pt_daysSinceGenesis (data ! i)) fit = Fin m"
    using assms(3) unfolding p
    by (simp add: applyFit_def Let_def PriceDataPoint.defs FittedDataPoint.defs)
  have bands: "band2SigmaLower ?p = Fin m * Math_exp (Fin (- 2) * sigma fit)"
      "band1SigmaLower ?p = Fin m * Math_exp (- sigma fit)"
      "band1SigmaUpper ?p = Fin m * Math_exp (sigma fit)"
      "band2SigmaUpper ?p = Fin m * Math_exp (Fin 2 * sigma fit)"
    unfolding p using fp
    by (simp_all add: applyFit_def Let_def PriceDataPoint.defs FittedDataPoint.defs)
  have order: "Fin m * Math_exp (Fin (- 2) * sigma fit) \<le> Fin m * Math_exp (- sigma fit)
      \<and> Fin m * Math_exp (- sigma fit) \<le> Fin m
      \<and> Fin m \<le> Fin m * Math_exp (sigma fit)
      \<and> Fin m * Math_exp (sigma fit) \<le> Fin m * Math_exp (Fin 2 * sigma fit)"
  proof (cases "sigma fit")
    case (Fin s)
    with assms(1) have s: "0 < s" by simp
    have o1: "m * exp (- (2 * s)) \<le> m * exp (- s)" using s assms(4) by simp
    have o2: "m * exp (- s) \<le> m" using s assms(4) by simp
    have o3: "m \<le> m * exp s" using s assms(4) by simp
    have o4: "m * exp s \<le> m * exp (2 * s)" using s assms(4) by simp
    show ?thesis unfolding Fin using o1 o2 o3 o4 by simp
  next
    case PInf
    show ?thesis
      unfolding PInf using assms(4)
      by (simp add: times_number_def uminus_number_def less_eq_number_def signed_inf_def)
  next
    case NInf
    with assms(1) show ?thesis by (simp add: less_number_def)
  next
    case NaN
    with assms(1) show ?thesis by simp
  qed
  show ?thesis
    unfolding bands assms(3) using fp order by simp
qed

text \<open>
  Witness for C8: the fit and the point of the band tests (A = 1, B = 2, sigma = 0.5, age
  100), with the model price 10000.
\<close>

theorem applyFitToData_bands_nested_witness:
  "fittedPrice (applyFitToData bandData bandFit ! 0) = Fin 10000
   \<and> band2SigmaLower (applyFitToData bandData bandFit ! 0)
       \<le> band1SigmaLower (applyFitToData bandData bandFit ! 0)
   \<and> band1SigmaLower (applyFitToData bandData bandFit ! 0)
       \<le> fittedPrice (applyFitToData bandData bandFit ! 0)
   \<and> fittedPrice (applyFitToData bandData bandFit ! 0)
       \<le> band1SigmaUpper (applyFitToData bandData bandFit ! 0)
   \<and> band1SigmaUpper (applyFitToData bandData bandFit ! 0)
       \<le> band2SigmaUpper (applyFitToData bandData bandFit ! 0)"
proof -
  have sg: "sigma bandFit > Fin 0" by (simp add: bandFit_def)
  have len: "0 < length bandData" by (simp add: bandData_def)
  have fp: "fittedPrice (applyFitToData bandData bandFit ! 0) = Fin 10000"
    by (simp add: applyFitToData_def applyFit_def bandData_def bandFit_def powerLawPrice_def
        Let_def PriceDataPoint.defs FittedDataPoint.defs)
  have pos: "0 < (10000 :: real)" by simp
  from applyFitToData_bands_nested [OF sg len fp pos] fp
  show ?thesis by blast
qed

text \<open>
  Counterexample to C8 as stated: with \<open>sigma = Infinity\<close>, which is greater than 0, and
  the point of the band tests, whose model price is 10000, the two lower bands are both 0
  and the two upper bands both \<open>Infinity\<close>: neither pair is strictly ordered.
\<close>

theorem bands_not_strictly_nested:
  "sigma infiniteSigmaFit > Fin 0
   \<and> fittedPrice (applyFitToData bandData infiniteSigmaFit ! 0) = Fin 10000
   \<and> band2SigmaLower (applyFitToData bandData infiniteSigmaFit ! 0) = Fin 0
   \<and> band1SigmaLower (applyFitToData bandData infiniteSigmaFit ! 0) = Fin 0
   \<and> \<not> band2SigmaLower (applyFitToData bandData infiniteSigmaFit ! 0)
         < band1SigmaLower (applyFitToData bandData infiniteSigmaFit ! 0)
   \<and> band1SigmaUpper (applyFitToData bandData infiniteSigmaFit ! 0) = PInf
   \<and> band2SigmaUpper (applyFitToData bandData infiniteSigmaFit ! 0) = PInf
   \<and> \<not> band1SigmaUpper (applyFitToData bandData infiniteSigmaFit ! 0)
         < band2SigmaUpper (applyFitToData bandData infiniteSigmaFit ! 0)"
  by (simp add: applyFitToData_def applyFit_def bandData_def infiniteSigmaFit_def bandFit_def
      powerLawPrice_def Let_def PriceDataPoint.defs FittedDataPoint.defs
      times_number_def uminus_number_def less_number_def signed_inf_def)

section \<open>C9: the monthly price path\<close>

text \<open>
  C9 (as amended). For every start date, number of years >= 0, fit and scenario,
  \<open>generatePricePath\<close> returns exactly years * 12 + 1 points, and its first point is
  dated at midnight UTC on the first day of the start date's month
  (\<open>Date.UTC(year, month, 1)\<close>). For a start date with a year outside 0 to 99 that is the
  start date with its day set to 1 and its time to 00:00, so it is the start date itself
  only when the start date is such an instant.
\<close>

theorem generatePricePath_length_and_first_date:
  assumes "0 \<le> years"
  shows "\<exists>path. generatePricePath start (Fin (real_of_int years)) fit scen = Some path
       \<and> length path = nat (years * 12 + 1)
       \<and> pp_date (path ! 0) = Date_UTC_first (getUTCFullYear start) (getUTCMonth start)
       \<and> (0 \<le> utcMonth start \<and> utcMonth start < 12
            \<and> \<not> (0 \<le> utcFullYear start \<and> utcFullYear start \<le> 99)
          \<longrightarrow> pp_date (path ! 0) = start\<lparr> utcDate := 1, msOfDay := 0 \<rparr>)"
proof -
  have fl: "\<lfloor>real_of_int years * 12\<rfloor> = years * 12"
    by (metis floor_of_int of_int_mult of_int_numeral)
  have len: "0 < nat (years * 12 - 0 + 1)" using assms by simp
  show ?thesis
    unfolding generatePricePath_Fin fl
    using assms len
    by (simp add: Date_UTC_first_def getUTCFullYear_def getUTCMonth_def Let_def
        del: upto_rec_numeral)
qed

text \<open>
  Witness for C9: five years from 1 January 2025 give 61 points, the first dated 1 January
  2025.
\<close>

theorem generatePricePath_length_and_first_date_witness:
  "length (the (generatePricePath testDate (Fin 5) flatFit fair)) = 61
   \<and> pp_date (the (generatePricePath testDate (Fin 5) flatFit fair) ! 0) = testDate"
proof -
  have "(0::int) \<le> 5" by simp
  from generatePricePath_length_and_first_date [OF this, of testDate flatFit fair]
  obtain path where "generatePricePath testDate (Fin 5) flatFit fair = Some path"
    and "length path = 61"
    and "pp_date (path ! 0) = Date_UTC_first (getUTCFullYear testDate) (getUTCMonth testDate)"
    by auto
  then show ?thesis
    by (simp add: testDate_def Date_UTC_first_def getUTCFullYear_def getUTCMonth_def)
qed

text \<open>
  Counterexample to C9 as stated: from the start date 15 January 2025 the first point is
  dated 1 January 2025, not the start date.
\<close>

theorem generatePricePath_first_date_not_start:
  "pp_date (the (generatePricePath midMonthDate (Fin 1) flatFit fair) ! 0) = testDate
   \<and> pp_date (the (generatePricePath midMonthDate (Fin 1) flatFit fair) ! 0) \<noteq> midMonthDate"
  by (simp add: generatePricePath_Fin Date_UTC_first_def getUTCFullYear_def getUTCMonth_def
      midMonthDate_def testDate_def del: upto_rec_numeral)

section \<open>C10: a lump-sum loan with interest paid monthly keeps its balance\<close>

lemma pay_monthly_month:
  assumes "\<not> borrowMonthly cfg" and "interestMode cfg = pay_monthly"
  shows "st_loanBalance (simulate_month cfg pt i st) = st_loanBalance st"
    and "st_totalBorrowed (simulate_month cfg pt i st) = st_totalBorrowed st"
    and "st_totalInterestPaid (simulate_month cfg pt i st) =
           st_totalInterestPaid st
             + (if i = 0 then Fin 0 else st_loanBalance st * monthlyInterestRate cfg)"
    and "snd (borrow_block cfg i st) = Fin 0"
    and "snd (interest_block cfg i (fst (borrow_block cfg i st))) =
           (if i = 0 then Fin 0 else st_loanBalance st * monthlyInterestRate cfg)"
  using assms
  by (simp_all add: simulate_month_state borrow_block_def interest_block_def Let_def)

lemma sum_reduce_snoc: "sum_reduce (xs @ [x]) = sum_reduce xs + x"
  by (simp add: sum_reduce_def)

lemma simulate_loop_pay_monthly:
  assumes modes: "\<not> borrowMonthly cfg" "interestMode cfg = pay_monthly"
    and init: "st_steps st0 = []" "\<not> st_isLiquidated st0" "st_loanBalance st0 = loan"
      "st_totalBorrowed st0 = loan" "st_totalInterestPaid st0 = Fin 0"
  shows "(\<forall>j<length (st_steps (simulate_loop cfg pricePath 0 st0)).
            loanBalance (st_steps (simulate_loop cfg pricePath 0 st0) ! j) = loan
          \<and> borrowedThisMonth (st_steps (simulate_loop cfg pricePath 0 st0) ! j) = Fin 0
          \<and> interestPaidThisMonth (st_steps (simulate_loop cfg pricePath 0 st0) ! j)
              = (if j = 0 then Fin 0 else loan * monthlyInterestRate cfg)
          \<and> collateralValue (st_steps (simulate_loop cfg pricePath 0 st0) ! j)
              = btcHeld cfg * pp_price (pricePath ! j))
       \<and> st_totalBorrowed (simulate_loop cfg pricePath 0 st0) = loan
       \<and> st_totalInterestPaid (simulate_loop cfg pricePath 0 st0)
            = sum_reduce (map interestPaidThisMonth
                (st_steps (simulate_loop cfg pricePath 0 st0)))"
proof -
  let ?Q = "\<lambda>s::SimState.
     st_loanBalance s = loan \<and> st_totalBorrowed s = loan
     \<and> st_totalInterestPaid s = sum_reduce (map interestPaidThisMonth (st_steps s))
     \<and> (\<forall>j<length (st_steps s).
            loanBalance (st_steps s ! j) = loan
          \<and> borrowedThisMonth (st_steps s ! j) = Fin 0
          \<and> interestPaidThisMonth (st_steps s ! j)
              = (if j = 0 then Fin 0 else loan * monthlyInterestRate cfg)
          \<and> collateralValue (st_steps s ! j) = btcHeld cfg * pp_price (pricePath ! j))"
  have "?Q (simulate_loop cfg pricePath 0 st0)"
  proof (rule simulate_loop_rule [where P = ?Q])
    show "?Q st0" using init by (simp add: sum_reduce_def)
    show "length (st_steps st0) = 0" using init by simp
    show "\<not> st_isLiquidated st0" by fact
  next
    fix s :: SimState
    let ?n = "length (st_steps s)"
    let ?s' = "simulate_month cfg (pricePath ! ?n) ?n s"
    assume inv: "?Q s"
    obtain x where x: "st_steps ?s' = st_steps s @ [x]" "loanBalance x = st_loanBalance ?s'"
        "borrowedThisMonth x = snd (borrow_block cfg ?n s)"
        "interestPaidThisMonth x = snd (interest_block cfg ?n (fst (borrow_block cfg ?n s)))"
        "collateralValue x = btcHeld cfg * pp_price (pricePath ! ?n)"
      using simulate_month_steps [of cfg "pricePath ! ?n" ?n s] by blast
    note pm = pay_monthly_month [OF modes]
    have xs: "loanBalance x = loan" "borrowedThisMonth x = Fin 0"
        "interestPaidThisMonth x = (if ?n = 0 then Fin 0 else loan * monthlyInterestRate cfg)"
      using x(2,3,4) pm inv by simp_all
    have tot: "st_totalInterestPaid ?s' = sum_reduce (map interestPaidThisMonth (st_steps ?s'))"
      using pm(3) inv xs(3) x(1) by (simp add: sum_reduce_snoc)
    have st: "st_loanBalance ?s' = loan" "st_totalBorrowed ?s' = loan"
      using pm(1,2) inv by simp_all
    have each: "loanBalance (st_steps ?s' ! j) = loan
          \<and> borrowedThisMonth (st_steps ?s' ! j) = Fin 0
          \<and> interestPaidThisMonth (st_steps ?s' ! j)
              = (if j = 0 then Fin 0 else loan * monthlyInterestRate cfg)
          \<and> collateralValue (st_steps ?s' ! j) = btcHeld cfg * pp_price (pricePath ! j)"
      if "j < length (st_steps ?s')" for j
    proof (cases "j < ?n")
      case True
      then have "st_steps ?s' ! j = st_steps s ! j" using x(1) by (simp add: nth_append)
      then show ?thesis using inv True by simp
    next
      case False
      then have j: "j = ?n" using that x(1) by simp
      then have "st_steps ?s' ! j = x" using x(1) by simp
      then show ?thesis using xs x(5) j by simp
    qed
    show "?Q ?s'" using st tot each by blast
  qed
  then show ?thesis by blast
qed

text \<open>
  C10. In starting-LTV mode with interest paid monthly (borrowMonthly = false, a starting
  LTV given, interestMode = pay_monthly), the loan balance of every step is the initial
  loan, the collateral value of month 0 times startingLtvPercent / 100; nothing is
  borrowed in any month and totalBorrowed is the initial loan; each step after month 0
  pays one month of interest on the initial loan, and totalInterestPaid is the sum of the
  interest paid in the steps.
\<close>

theorem lump_sum_pay_monthly_balance_constant:
  assumes "\<not> borrowMonthly cfg" and "startingLtvPercent cfg = Some pct"
    and "interestMode cfg = pay_monthly"
    and "runBBDSimulation today cfg fit start hist = Some (Inr r)"
  shows "(\<forall>j<length (steps r).
            loanBalance (steps r ! j) = collateralValue (steps r ! 0) * (pct / Fin 100)
          \<and> borrowedThisMonth (steps r ! j) = Fin 0
          \<and> interestPaidThisMonth (steps r ! j)
              = (if j = 0 then Fin 0
                 else collateralValue (steps r ! 0) * (pct / Fin 100) * monthlyInterestRate cfg))
       \<and> totalBorrowed (summary r) = collateralValue (steps r ! 0) * (pct / Fin 100)
       \<and> totalInterestPaid (summary r) = sum_reduce (map interestPaidThisMonth (steps r))"
proof -
  obtain P st0 where P: "select_pricePath today cfg fit start hist = Some P"
    and st0: "initial_state cfg P = Inr st0"
    and st: "steps r = st_steps (simulate_loop cfg P 0 st0)"
    and sm: "make_summary (simulate_loop cfg P 0 st0) = Inr (summary r)"
    using runBBDSimulation_Inr [OF assms(4)] by blast
  note i0 = initial_state_props [OF st0]
  let ?loan = "btcHeld cfg * pp_price (P ! 0) * (pct / Fin 100)"
  have l0: "st_loanBalance st0 = ?loan" using i0(6) assms(1,2) by simp
  have b0: "st_totalBorrowed st0 = ?loan" using i0(5) l0 by simp
  have ne: "0 < length (steps r)" using make_summary_props(1) [OF sm] st by simp
  note inv = simulate_loop_pay_monthly [OF assms(1,3) i0(1) i0(2) l0 b0 i0(4), of P,
      folded st]
  have c0: "collateralValue (steps r ! 0) = btcHeld cfg * pp_price (P ! 0)"
    using inv ne by blast
  show ?thesis
    using inv make_summary_props(4,5) [OF sm] unfolding c0 st [symmetric] by simp
qed

text \<open>
  With \<open>lumpSumConfig\<close> the loan is 20% of 12000, the LTV stays at 0.2 and the run goes
  through all 13 months, paying 20 of interest in each month after the first.
\<close>

lemma lump_sum_run_steps:
  "map (\<lambda>s. (month s, loanBalance s, interestPaidThisMonth s))
     (steps (projr (the (runBBDSimulation testDate lumpSumConfig flatFit testDate None))))
   = [(0, Fin 2400, Fin 0), (1, Fin 2400, Fin 20), (2, Fin 2400, Fin 20),
      (3, Fin 2400, Fin 20), (4, Fin 2400, Fin 20), (5, Fin 2400, Fin 20),
      (6, Fin 2400, Fin 20), (7, Fin 2400, Fin 20), (8, Fin 2400, Fin 20),
      (9, Fin 2400, Fin 20), (10, Fin 2400, Fin 20), (11, Fin 2400, Fin 20),
      (12, Fin 2400, Fin 20)]"
  by (simp add: run_simps lumpSumConfig_def baseConfig_def flatFit_def del: upto_rec_numeral)

text \<open>
  Witness for C10: in that run the balance of month 12 is the 2400 of month 0, and the
  interest paid over the run is 240.
\<close>

theorem lump_sum_pay_monthly_balance_constant_witness:
  "loanBalance (steps (projr (the (runBBDSimulation testDate lumpSumConfig flatFit testDate None))) ! 12)
     = Fin 2400
   \<and> totalBorrowed (summary (projr (the (runBBDSimulation testDate lumpSumConfig flatFit testDate None))))
     = Fin 2400
   \<and> totalInterestPaid
       (summary (projr (the (runBBDSimulation testDate lumpSumConfig flatFit testDate None))))
     = Fin 240"
proof -
  let ?r = "projr (the (runBBDSimulation testDate lumpSumConfig flatFit testDate None))"
  have "projectionYears lumpSumConfig = Fin 1" by (simp add: lumpSumConfig_def baseConfig_def)
  from runBBDSimulation_returns [OF this, of testDate flatFit testDate None]
  have run: "runBBDSimulation testDate lumpSumConfig flatFit testDate None = Some (Inr ?r)"
    by auto
  have cfg: "\<not> borrowMonthly lumpSumConfig" "startingLtvPercent lumpSumConfig = Some (Fin 20)"
    "interestMode lumpSumConfig = pay_monthly"
    by (simp_all add: lumpSumConfig_def baseConfig_def)
  have len: "length (steps ?r) = 13"
    using arg_cong [OF lump_sum_run_steps, of length] by simp
  have interest: "map interestPaidThisMonth (steps ?r)
      = [Fin 0, Fin 20, Fin 20, Fin 20, Fin 20, Fin 20, Fin 20, Fin 20, Fin 20, Fin 20,
         Fin 20, Fin 20, Fin 20]"
    using arg_cong [OF lump_sum_run_steps, of "map (\<lambda>t. snd (snd t))"]
    by (simp add: comp_def)
  have c0: "loanBalance (steps ?r ! 0) = Fin 2400"
    using arg_cong [OF lump_sum_run_steps, of "\<lambda>xs. fst (snd (xs ! 0))"] len by simp
  note main = lump_sum_pay_monthly_balance_constant [OF cfg(1) cfg(2) cfg(3) run]
  have loan: "collateralValue (steps ?r ! 0) * (Fin 20 / Fin 100) = Fin 2400"
    using main c0 len by simp
  have b12: "loanBalance (steps ?r ! 12) = Fin 2400"
    using main loan len by simp
  have tb: "totalBorrowed (summary ?r) = Fin 2400" using main loan by simp
  have ti: "totalInterestPaid (summary ?r) = Fin 240"
    using main interest by (simp add: sum_reduce_def)
  show ?thesis using b12 tb ti by simp
qed

end
